theory Spec2Isabelle
  imports Main
begin

section \<open>JavaScript string helpers\<close>

text \<open>
  The build scripts use \<^verbatim>\<open>startsWith\<close>, \<^verbatim>\<open>endsWith\<close>, \<^verbatim>\<open>replace\<close> and
  \<^verbatim>\<open>replaceAll\<close> of JavaScript strings. Strings are modelled as \<^typ>\<open>string\<close>
  (lists of characters); the functions below only compare and copy characters, so the
  width of a character plays no role.
\<close>

fun startsWith :: "string \<Rightarrow> string \<Rightarrow> bool" where
  "startsWith s [] = True"
| "startsWith [] (p # ps) = False"
| "startsWith (c # cs) (p # ps) = (c = p \<and> startsWith cs ps)"

definition endsWith :: "string \<Rightarrow> string \<Rightarrow> bool" where
  "endsWith s p = startsWith (rev s) (rev p)"

text \<open>
  \<open>splitAtFirst pat s\<close> finds the leftmost occurrence of \<open>pat\<close> in \<open>s\<close> and returns the
  text before it and the text after it; \<open>None\<close> when \<open>pat\<close> does not occur.
\<close>

fun splitAtFirst :: "string \<Rightarrow> string \<Rightarrow> (string \<times> string) option" where
  "splitAtFirst pat [] = (if pat = [] then Some ([], []) else None)"
| "splitAtFirst pat (c # cs) =
     (if startsWith (c # cs) pat then Some ([], drop (length pat) (c # cs))
      else (case splitAtFirst pat cs of
              None \<Rightarrow> None
            | Some (pre, post) \<Rightarrow> Some (c # pre, post)))"

text \<open>
  The replacement text of \<^verbatim>\<open>String.prototype.replace\<close> is a template: \<^verbatim>\<open>$$\<close> stands
  for a dollar sign, \<^verbatim>\<open>$&\<close> for the matched text, \<^verbatim>\<open>$`\<close> for the text before the
  match and \<^verbatim>\<open>$'\<close> for the text after it. With a string pattern there are no capture
  groups, so every other use of \<^verbatim>\<open>$\<close> is copied as it is.
\<close>

fun getSubstitution :: "string \<Rightarrow> string \<Rightarrow> string \<Rightarrow> string \<Rightarrow> string" where
  "getSubstitution matched pre post [] = []"
| "getSubstitution matched pre post [c] = [c]"
| "getSubstitution matched pre post (c # d # r) =
     (if c = CHR ''$'' \<and> d = CHR ''$'' then CHR ''$'' # getSubstitution matched pre post r
      else if c = CHR ''$'' \<and> d = CHR ''&'' then matched @ getSubstitution matched pre post r
      else if c = CHR ''$'' \<and> d = CHR 0x60 then pre @ getSubstitution matched pre post r
      else if c = CHR ''$'' \<and> d = CHR 0x27 then post @ getSubstitution matched pre post r
      else c # getSubstitution matched pre post (d # r))"

text \<open>\<^verbatim>\<open>s.replace(pat, repl)\<close> with a string pattern: only the first occurrence.\<close>

definition replace :: "string \<Rightarrow> string \<Rightarrow> string \<Rightarrow> string" where
  "replace s pat repl =
     (case splitAtFirst pat s of
        None \<Rightarrow> s
      | Some (pre, post) \<Rightarrow> pre @ getSubstitution pat pre post repl @ post)"

text \<open>
  \<^verbatim>\<open>s.replaceAll(".", "_")\<close>: the pattern is the one-character string \<^verbatim>\<open>.\<close> (not a
  regular expression) and the replacement holds no \<^verbatim>\<open>$\<close>, so every dot becomes an
  underscore.
\<close>

definition replaceAll_dot_underscore :: "string \<Rightarrow> string" where
  "replaceAll_dot_underscore s = map (\<lambda>c. if c = CHR ''.'' then CHR ''_'' else c) s"

text \<open>\<^verbatim>\<open>x ?? d\<close> on an optional value.\<close>

definition orElse :: "'a option \<Rightarrow> 'a \<Rightarrow> 'a" where
  "orElse x d = (case x of None \<Rightarrow> d | Some v \<Rightarrow> v)"

section \<open>Manifest model (scripts/build/constants.ts)\<close>

text \<open>
  \<^verbatim>\<open>TargetBase\<close> is \<^verbatim>\<open>"chromium" | "firefox" | "apple"\<close> and \<^verbatim>\<open>Target\<close> is
  \<^verbatim>\<open>"chrome" | "firefox" | "edge" | "safari"\<close>; the constructors are spelled apart from
  each other and from the keys of the settings block.
\<close>

datatype TargetBase = Chromium | Firefox | Apple

datatype Target = chrome_target | firefox_target | edge_target | safari_target

fun getTargetBaseFromTarget :: "Target \<Rightarrow> TargetBase" where
  "getTargetBaseFromTarget chrome_target = Chromium"
| "getTargetBaseFromTarget edge_target = Chromium"
| "getTargetBaseFromTarget firefox_target = Firefox"
| "getTargetBaseFromTarget safari_target = Apple"

record DevServersAvailable =
  IS_DEV_API_ACCESSIBLE :: bool
  IS_DEV_WWW_ACCESSIBLE :: bool
  IS_DEV_WS_ACCESSIBLE :: bool

text \<open>
  \<^verbatim>\<open>BrowserSpecificSettings\<close>. An optional property is an \<open>option\<close>: \<open>None\<close> stands for
  a key that is absent or holds \<^verbatim>\<open>undefined\<close> (\<^verbatim>\<open>JSON.stringify\<close> writes neither).
  \<open>update_url\<close> is not declared by the type; the Gecko branch of \<open>transformManifest\<close>
  writes it.
\<close>

record BrowserSpecificSettings =
  settings_id :: "string option"
  beta_id :: "string option"
  settings_key :: "string option"
  beta_update_url :: "string option"
  strict_min_version :: "string option"
  strict_max_version :: "string option"
  update_url :: "string option"

record FirefoxSettings = BrowserSpecificSettings +
  android :: "BrowserSpecificSettings option"

text \<open>
  The \<^verbatim>\<open>browser_specific_settings\<close> block. The source has the keys \<open>chrome\<close>,
  \<open>firefox\<close> and \<open>safari\<close>; \<open>gecko\<close> and \<open>gecko_android\<close> are the keys of the block that
  \<open>transformManifest\<close> writes for the Gecko family.
\<close>

record SettingsBlock =
  chrome :: "BrowserSpecificSettings option"
  firefox :: "FirefoxSettings option"
  safari :: "BrowserSpecificSettings option"
  gecko :: "FirefoxSettings option"
  gecko_android :: "BrowserSpecificSettings option"

record ResourceGroup =
  resources :: "string list"
  matches :: "string list"

text \<open>
  \<^verbatim>\<open>web_accessible_resources\<close> is a list of groups in the source manifest (Manifest V3);
  the Gecko branch replaces it by the flat list of what \<^verbatim>\<open>group.resources\<close> gave for each
  element, which is \<^verbatim>\<open>undefined\<close> (\<open>None\<close>) for an element that is a string.
\<close>

datatype WebAccessibleResources =
  Grouped "ResourceGroup list"
| Flat "string option list"

text \<open>
  \<^verbatim>\<open>background\<close>: \<open>service_worker\<close> and \<open>background_type\<close> (the key \<^verbatim>\<open>type\<close>) in the
  source, \<open>scripts\<close> in what the Gecko branch writes.
\<close>

record Background =
  service_worker :: "string option"
  background_type :: "string option"
  scripts :: "string option list option"

text \<open>
  The values of \<^verbatim>\<open>action\<close> and \<^verbatim>\<open>options_ui\<close> are objects that \<open>transformManifest\<close>
  only moves or drops; they are given the keys a Manifest V3 document usually has there.
\<close>

record ActionObject =
  default_title :: "string option"
  default_popup :: "string option"

record OptionsUiObject =
  page :: string
  open_in_tab :: "bool option"

text \<open>
  The manifest, with the keys that \<open>transformManifest\<close> reads or writes. As above,
  \<open>None\<close> is a key that is absent or holds \<^verbatim>\<open>undefined\<close>; the manifest file is written
  with \<^verbatim>\<open>JSON.stringify\<close>, which leaves such a key out. \<open>schema\<close> is the key \<^verbatim>\<open>$schema\<close>.
  Every other key of the document travels in the record's extension part, which record
  update leaves as it is, the way the object spread \<^verbatim>\<open>{...manifest, k: v}\<close> does.
\<close>

record Manifest =
  schema :: "string option"
  manifest_version :: int
  name :: string
  short_name :: "string option"
  version :: "string option"
  version_name :: "string option"
  store_version :: "string option"
  beta :: "bool option"
  permissions :: "string list option"
  host_permissions :: "string list option"
  optional_permissions :: "string list option"
  optional_host_permissions :: "string list option"
  web_accessible_resources :: "WebAccessibleResources option"
  background :: "Background option"
  action :: "ActionObject option"
  browser_action :: "ActionObject option"
  options_ui :: "OptionsUiObject option"
  incognito :: "string option"
  browser_specific_settings :: "SettingsBlock option"
  key :: "string option"
  minimum_chrome_version :: "string option"

text \<open>
  JavaScript raises a \<^verbatim>\<open>TypeError\<close> when a property is read from \<^verbatim>\<open>undefined\<close>.
  \<open>transformManifest\<close> can only meet one when \<^verbatim>\<open>web_accessible_resources\<close> already is
  the flat list of the Gecko output.
\<close>

datatype error = TypeError

section \<open>transformManifest (scripts/build/utils.ts)\<close>

text \<open>
  Lines 127-137, on the list itself: every group loses its \<^verbatim>\<open>.map\<close> resources, groups
  left without resources are dropped, and an empty list becomes \<^verbatim>\<open>undefined\<close>. On a flat
  list the loop reads \<^verbatim>\<open>data.resources.filter\<close> of a string or of \<^verbatim>\<open>undefined\<close>, which
  raises at the first element.
\<close>

definition removeSourceMaps :: "WebAccessibleResources \<Rightarrow> error + WebAccessibleResources option" where
  "removeSourceMaps w =
     (case w of
        Grouped gs \<Rightarrow>
          (let gs1 = map (\<lambda>data. data\<lparr>resources := filter (\<lambda>item. \<not> endsWith item ''.map'') (resources data)\<rparr>) gs;
               gs2 = filter (\<lambda>item. 0 < length (resources item)) gs1
           in Inr (if length gs2 = 0 then None else Some (Grouped gs2)))
      | Flat xs \<Rightarrow> (if xs = [] then Inr None else Inl TypeError))"

text \<open>Lines 127-137: \<^verbatim>\<open>if (manifest.web_accessible_resources && !isDev)\<close>; an array is truthy.\<close>

definition dropSourceMaps :: "'z Manifest_scheme \<Rightarrow> bool \<Rightarrow> error + 'z Manifest_scheme" where
  "dropSourceMaps m isDev =
     (case web_accessible_resources m of
        None \<Rightarrow> Inr m
      | Some w \<Rightarrow>
          (if \<not> isDev then
             (case removeSourceMaps w of
                Inl e \<Rightarrow> Inl e
              | Inr w' \<Rightarrow> Inr (m\<lparr>web_accessible_resources := w'\<rparr>))
           else Inr m))"

text \<open>
  Lines 139-142: \<^verbatim>\<open>if (devServers && isDev)\<close>. The record is an object, so it is truthy
  whenever it is passed, whatever its three flags hold.
\<close>

definition addLocalhost ::
  "'z Manifest_scheme \<Rightarrow> bool \<Rightarrow> DevServersAvailable option \<Rightarrow> 'z Manifest_scheme" where
  "addLocalhost m isDev devServers =
     (if devServers \<noteq> None \<and> isDev
      then m\<lparr>host_permissions := Some (orElse (host_permissions m) [] @ [''*://localhost/*''])\<rparr>
      else m)"

text \<open>Lines 144-147: \<^verbatim>\<open>if (manifest.beta && !isDev)\<close>.\<close>

definition markBeta :: "'z Manifest_scheme \<Rightarrow> bool \<Rightarrow> 'z Manifest_scheme" where
  "markBeta m isDev =
     (if beta m = Some True \<and> \<not> isDev
      then m\<lparr>short_name := Some ''RoSeal BETA'', name := ''RoSeal BETA''\<rparr>
      else m)"

text \<open>\<^verbatim>\<open>String(v)\<close> of an optional string, as \<^verbatim>\<open>replace\<close> applies it to its second argument.\<close>

definition toString :: "string option \<Rightarrow> string" where
  "toString v = orElse v ''undefined''"

text \<open>
  Lines 184-186: \<^verbatim>\<open>web_accessible_resources?.flatMap((resources) => resources.resources)\<close>.
  A group gives its resources; a string gives \<^verbatim>\<open>undefined\<close>, an \<^verbatim>\<open>undefined\<close> element raises.
\<close>

definition flattenResources :: "WebAccessibleResources \<Rightarrow> error + WebAccessibleResources" where
  "flattenResources w =
     (case w of
        Grouped gs \<Rightarrow> Inr (Flat (concat (map (\<lambda>g. map Some (resources g)) gs)))
      | Flat xs \<Rightarrow> (if None \<in> set xs then Inl TypeError else Inr (Flat (map (\<lambda>x. None) xs))))"

text \<open>Lines 149-188: the two object spreads. Every right-hand side reads the old manifest.\<close>

definition rewriteForTarget :: "'z Manifest_scheme \<Rightarrow> TargetBase \<Rightarrow> error + 'z Manifest_scheme" where
  "rewriteForTarget m targetBase =
     (if targetBase \<noteq> Firefox then
        Inr (m\<lparr>options_ui := None,
               store_version := None,
               version := store_version m,
               version_name :=
                 map_option (\<lambda>vn. replace vn ''__manifest_version__'' (toString (version m)))
                   (version_name m)\<rparr>)
      else
        (case (case web_accessible_resources m of
                 None \<Rightarrow> Inr None
               | Some w \<Rightarrow> (case flattenResources w of Inl e \<Rightarrow> Inl e | Inr w' \<Rightarrow> Inr (Some w'))) of
           Inl e \<Rightarrow> Inl e
         | Inr flat \<Rightarrow>
             Inr (m\<lparr>store_version := None,
                    version := store_version m,
                    manifest_version := 2,
                    version_name := None,
                    host_permissions := None,
                    optional_host_permissions := None,
                    optional_permissions :=
                      Some (orElse (optional_host_permissions m) [] @ orElse (optional_permissions m) []),
                    permissions := Some (orElse (host_permissions m) [] @ orElse (permissions m) []),
                    action := None,
                    browser_action := action m,
                    incognito := Some ''spanning'',
                    background :=
                      map_option
                        (\<lambda>b. \<lparr>service_worker = None, background_type = None,
                               scripts = Some [service_worker b]\<rparr>)
                        (background m),
                    web_accessible_resources := flat\<rparr>)))"

text \<open>Lines 206-233: the \<^verbatim>\<open>firefox\<close> case of the switch, on the settings block.\<close>

definition geckoSettings :: "SettingsBlock \<Rightarrow> bool option \<Rightarrow> bool \<Rightarrow> SettingsBlock" where
  "geckoSettings b isBeta isDev =
     (let id = (if \<not> isDev
                then (if isBeta = Some True then Option.bind (firefox b) beta_id
                      else Option.bind (firefox b) settings_id)
                else None);
          updateUrl = (if \<not> isDev \<and> isBeta = Some True then Option.bind (firefox b) beta_id
                       else None);
          ff = map_option (\<lambda>f. f\<lparr>beta_id := None, beta_update_url := None\<rparr>) (firefox b)
      in \<lparr>chrome = None, firefox = None, safari = None,
          gecko = map_option (\<lambda>f. f\<lparr>settings_id := id, update_url := updateUrl, android := None\<rparr>) ff,
          gecko_android = Option.bind ff android\<rparr>)"

text \<open>Lines 190-237: \<^verbatim>\<open>if (manifest.browser_specific_settings) switch (targetBase)\<close>.\<close>

definition narrowSettings :: "'z Manifest_scheme \<Rightarrow> TargetBase \<Rightarrow> bool \<Rightarrow> 'z Manifest_scheme" where
  "narrowSettings m targetBase isDev =
     (case browser_specific_settings m of
        None \<Rightarrow> m
      | Some b \<Rightarrow>
          (case targetBase of
             Apple \<Rightarrow>
               m\<lparr>browser_specific_settings :=
                   Some \<lparr>chrome = None, firefox = None, safari = safari b,
                         gecko = None, gecko_android = None\<rparr>\<rparr>
           | Chromium \<Rightarrow>
               m\<lparr>key := (if isDev then Option.bind (chrome b) settings_key else key m),
                  minimum_chrome_version := Option.bind (chrome b) strict_min_version,
                  browser_specific_settings := None\<rparr>
           | Firefox \<Rightarrow>
               m\<lparr>browser_specific_settings := Some (geckoSettings b (beta m) isDev)\<rparr>))"

text \<open>Lines 239-244: \<^verbatim>\<open>if (targetBase === "apple")\<close>.\<close>

definition stripForApple :: "'z Manifest_scheme \<Rightarrow> TargetBase \<Rightarrow> 'z Manifest_scheme" where
  "stripForApple m targetBase =
     (if targetBase = Apple
      then m\<lparr>incognito := None,
             optional_permissions :=
               map_option (filter (\<lambda>item. item \<noteq> ''cookies'')) (optional_permissions m)\<rparr>
      else m)"

text \<open>
  \<open>transformManifest\<close>, lines 118-249. The source works on a \<^verbatim>\<open>structuredClone\<close> of its
  argument, so the function is a function of the argument's value; \<open>isDev\<close> defaults to
  false and \<open>devServers\<close> is optional.
\<close>

definition transformManifest ::
  "'z Manifest_scheme \<Rightarrow> TargetBase \<Rightarrow> bool \<Rightarrow> DevServersAvailable option
     \<Rightarrow> error + 'z Manifest_scheme" where
  "transformManifest m targetBase isDev devServers =
     (case dropSourceMaps (m\<lparr>schema := None\<rparr>) isDev of
        Inl e \<Rightarrow> Inl e
      | Inr m1 \<Rightarrow>
          (case rewriteForTarget (markBeta (addLocalhost m1 isDev devServers) isDev) targetBase of
             Inl e \<Rightarrow> Inl e
           | Inr m2 \<Rightarrow>
               Inr ((stripForApple (narrowSettings m2 targetBase isDev) targetBase)\<lparr>beta := None\<rparr>)))"

text \<open>
  A source manifest has the shape of the \<^verbatim>\<open>Manifest\<close> type of constants.ts: its
  \<^verbatim>\<open>web_accessible_resources\<close>, when present, is a list of groups.
\<close>

definition isSourceManifest :: "'z Manifest_scheme \<Rightarrow> bool" where
  "isSourceManifest m =
     (case web_accessible_resources m of
        None \<Rightarrow> True
      | Some (Grouped gs) \<Rightarrow> True
      | Some (Flat xs) \<Rightarrow> False)"

section \<open>Locale extraction (scripts/build/utils.ts)\<close>

text \<open>\<^verbatim>\<open>I18nEnv\<close>: \<^verbatim>\<open>"main" | "inject" | "popup" | "background" | "roseal" | "manifest"\<close>.\<close>

datatype I18nEnv = env_main | env_inject | env_popup | env_background | env_roseal | env_manifest

text \<open>
  A value of a locale file is a string or an \<^verbatim>\<open>I18nDetail\<close> object. The object's
  directives \<^verbatim>\<open>$types\<close>, \<^verbatim>\<open>$message\<close> and \<^verbatim>\<open>$context\<close> are the three optional
  arguments of \<open>Detail\<close>; its other keys are the list of entries, in the order in which
  \<^verbatim>\<open>for (const key in data)\<close> visits them. A key of that list that starts with \<^verbatim>\<open>$\<close>
  (such as \<^verbatim>\<open>$schema\<close>) is skipped by the loop like the directives are.
\<close>

datatype I18nValue =
  Text string
| Detail (dollar_types: "I18nEnv list option") (dollar_message: "string option")
    (dollar_context: "string option") (entries: "(string \<times> I18nValue) list")

text \<open>An entry of the result: \<^verbatim>\<open>{ $context?: string; message?: string }\<close>.\<close>

record I18nEntry =
  entry_context :: "string option"
  message :: "string option"

text \<open>
  The result object \<^verbatim>\<open>transform\<close>, as the list of its keys and values in insertion
  order. \<open>assign\<close> is \<^verbatim>\<open>transform[k] = v\<close>: a key that exists keeps its place, a new key
  goes last. (JavaScript lists keys that are array indices first; message keys are
  names, and the order of the list plays no role in what is proved below.)
\<close>

type_synonym Transform = "(string \<times> I18nEntry) list"

fun assign :: "string \<Rightarrow> 'v \<Rightarrow> (string \<times> 'v) list \<Rightarrow> (string \<times> 'v) list" where
  "assign k v [] = [(k, v)]"
| "assign k v ((k', v') # rest) = (if k' = k then (k, v) # rest else (k', v') # assign k v rest)"

text \<open>Truthiness of an optional string: defined and not empty.\<close>

definition truthy :: "string option \<Rightarrow> bool" where
  "truthy s = (case s of None \<Rightarrow> False | Some t \<Rightarrow> t \<noteq> [])"

text \<open>\<^verbatim>\<open>`${currentContext ? `${currentContext}; ` : ""}${own}`\<close>, lines 418 and 425.\<close>

definition joinContext :: "string option \<Rightarrow> string \<Rightarrow> string" where
  "joinContext currentContext own =
     (if truthy currentContext then orElse currentContext [] @ ''; '' else []) @ own"

text \<open>
  \<open>handleI18NNamespace\<close>, lines 361-433. The loop over the keys of \<open>data\<close> is the recursion
  over the list, \<open>k\<close> being the loop's \<^verbatim>\<open>key\<close>. \<open>transform\<close> is the object that the source
  mutates and hands to the recursive call, so it is passed along and returned.
  \<open>hasTransform\<close> tells whether the caller passed \<^verbatim>\<open>_transform\<close>: the outermost call does
  not, every recursive call does.
\<close>

function handleI18NNamespaceLoop ::
  "(string \<times> I18nValue) list \<Rightarrow> I18nEnv list option \<Rightarrow> string option \<Rightarrow> bool
     \<Rightarrow> bool \<Rightarrow> string option \<Rightarrow> Transform \<Rightarrow> Transform" where
  "handleI18NNamespaceLoop [] types namespace hasTransform includeContext currentContext transform =
     transform"
| "handleI18NNamespaceLoop ((k, value) # rest) types namespace hasTransform includeContext
     currentContext transform =
     (let setKey0 = (if truthy namespace then orElse namespace [] @ ''.'' @ k else k);
          setKey = (case types of
                      None \<Rightarrow> setKey0
                    | Some ts \<Rightarrow>
                        if env_manifest \<in> set ts \<and> length ts = 1
                        then replaceAll_dot_underscore setKey0 else setKey0)
      in if startsWith k ''$'' then
           handleI18NNamespaceLoop rest types namespace hasTransform includeContext
             currentContext transform
         else
           (case value of
              Text str \<Rightarrow>
                if length str = 0 then
                  handleI18NNamespaceLoop rest types namespace hasTransform includeContext
                    currentContext transform
                else
                  handleI18NNamespaceLoop rest types namespace hasTransform includeContext
                    currentContext
                    (assign setKey \<lparr>entry_context = None, message = Some str\<rparr> transform)
            | Detail tys msg ctx children \<Rightarrow>
                if (case types of
                      None \<Rightarrow> False
                    | Some ts \<Rightarrow>
                        \<not> (\<exists>type \<in> set (orElse tys [env_main]). type \<in> set ts)
                        \<and> (tys \<noteq> None \<or> \<not> hasTransform))
                then
                  handleI18NNamespaceLoop rest types namespace hasTransform includeContext
                    currentContext transform
                else
                  (let transform1 =
                         (if truthy msg then
                            (let old = orElse (map_of transform setKey)
                                         \<lparr>entry_context = None, message = None\<rparr>;
                                 withContext =
                                   (if includeContext
                                    then old\<lparr>entry_context :=
                                               Some (joinContext currentContext
                                                       (if truthy ctx then orElse ctx [] else k))\<rparr>
                                    else old)
                             in assign setKey (withContext\<lparr>message := msg\<rparr>) transform)
                          else transform);
                       nextContext =
                         (if includeContext
                          then Some (joinContext currentContext (orElse ctx k))
                          else None);
                       transform2 =
                         handleI18NNamespaceLoop children types (Some setKey) True includeContext
                           nextContext transform1
                   in handleI18NNamespaceLoop rest types namespace hasTransform includeContext
                        currentContext transform2)))"
  by pat_completeness auto
termination
  by (relation "measure (\<lambda>(data, types, namespace, hasTransform, includeContext, currentContext,
                            transform). size_list (size_prod (\<lambda>x. 0) size) data)")
     auto

definition handleI18NNamespace ::
  "(string \<times> I18nValue) list \<Rightarrow> I18nEnv list option \<Rightarrow> string option \<Rightarrow> Transform option
     \<Rightarrow> bool \<Rightarrow> string option \<Rightarrow> Transform" where
  "handleI18NNamespace data types namespace transform0 includeContext currentContext =
     handleI18NNamespaceLoop data types namespace (transform0 \<noteq> None) includeContext
       currentContext (orElse transform0 [])"

text \<open>
  The elements of a parsed ICU message, as the package \<^verbatim>\<open>@formatjs/icu-messageformat-parser\<close>
  declares them: a literal has \<^verbatim>\<open>type\<close> 0; select and plural elements have \<^verbatim>\<open>options\<close>,
  each with a list of elements as its \<^verbatim>\<open>value\<close>; a tag has \<^verbatim>\<open>children\<close>; the pound
  element is the only one without a \<^verbatim>\<open>value\<close>.
\<close>

datatype MessageFormatElement =
  LiteralElement string
| ArgumentElement string
| NumberElement string
| DateElement string
| TimeElement string
| SelectElement string "(string \<times> MessageFormatElement list) list"
| PluralElement string "(string \<times> MessageFormatElement list) list"
| PoundElement
| TagElement string "MessageFormatElement list"

text \<open>\<open>handleItem\<close>, lines 490-507 of \<open>getI18nTypesFile\<close>; a single element is a list of one.\<close>

fun handleItem :: "MessageFormatElement \<Rightarrow> MessageFormatElement list" where
  "handleItem (SelectElement v options) =
     SelectElement v options # concat (map (\<lambda>(k, value). concat (map handleItem value)) options)"
| "handleItem (PluralElement v options) =
     PluralElement v options # concat (map (\<lambda>(k, value). concat (map handleItem value)) options)"
| "handleItem (TagElement v children) =
     TagElement v children # concat (map handleItem children)"
| "handleItem item = [item]"

text \<open>\<^verbatim>\<open>item.type !== 0\<close> and \<^verbatim>\<open>"value" in item\<close>, with the value.\<close>

fun elementValue :: "MessageFormatElement \<Rightarrow> string option" where
  "elementValue (LiteralElement v) = Some v"
| "elementValue (ArgumentElement v) = Some v"
| "elementValue (NumberElement v) = Some v"
| "elementValue (DateElement v) = Some v"
| "elementValue (TimeElement v) = Some v"
| "elementValue (SelectElement v options) = Some v"
| "elementValue (PluralElement v options) = Some v"
| "elementValue PoundElement = None"
| "elementValue (TagElement v children) = Some v"

fun isLiteral :: "MessageFormatElement \<Rightarrow> bool" where
  "isLiteral (LiteralElement v) = True"
| "isLiteral item = False"

text \<open>
  Lines 509-513, \<^verbatim>\<open>args\<close>. \<open>parseMessage\<close> is the parser of the package named above; it
  is a parameter here.
\<close>

definition messageArgs ::
  "(string \<Rightarrow> MessageFormatElement list) \<Rightarrow> I18nEntry \<Rightarrow> MessageFormatElement list" where
  "messageArgs parseMessage value =
     (if truthy (message value)
      then filter (\<lambda>item. \<not> isLiteral item \<and> elementValue item \<noteq> None)
             (concat (map handleItem (parseMessage (orElse (message value) []))))
      else [])"

text \<open>
  Lines 515-531: the filter that keeps the first element of each value, with
  \<^verbatim>\<open>handledKeys\<close> as its state, followed by the map to the value.
\<close>

fun argumentNames :: "string list \<Rightarrow> MessageFormatElement list \<Rightarrow> string list" where
  "argumentNames handledKeys [] = []"
| "argumentNames handledKeys (item # items) =
     (if truthy (elementValue item) then
        (if orElse (elementValue item) [] \<in> set handledKeys then argumentNames handledKeys items
         else orElse (elementValue item) []
                # argumentNames (handledKeys @ [orElse (elementValue item) []]) items)
      else argumentNames handledKeys items)"

text \<open>
  The argument names that \<open>getI18nTypesFile\<close> writes for every key of the extraction of
  the reference locale under \<^verbatim>\<open>["main", "inject", "popup", "background"]\<close>, line 486.
\<close>

definition getI18nTypes ::
  "(string \<Rightarrow> MessageFormatElement list) \<Rightarrow> (string \<times> I18nValue) list
     \<Rightarrow> (string \<times> string list) list" where
  "getI18nTypes parseMessage data =
     map (\<lambda>(k, value). (k, argumentNames [] (messageArgs parseMessage value)))
       (handleI18NNamespace data (Some [env_main, env_inject, env_popup, env_background])
          None None False None)"

section \<open>Declarative net request rules (scripts/build.ts, scripts/build/constants.ts)\<close>

text \<open>The three domains that \<open>writeDNRRules\<close> takes from \<open>getDomains\<close>; none depends on its arguments.\<close>

definition ROBLOX_DOMAIN :: string where
  "ROBLOX_DOMAIN = ''{service}.roblox.com''"

definition TWEMOJI_EMOJI_BASE_URL :: string where
  "TWEMOJI_EMOJI_BASE_URL = ''https://cdn.jsdelivr.net/gh/jdecked/twemoji@16.0.1/assets/''"

definition FLUENTUI_EMOJI_BASE_URL :: string where
  "FLUENTUI_EMOJI_BASE_URL =
     ''https://cdn.jsdelivr.net/gh/RoSeal-Extension/fluentui-emoji@latest/export/''"

definition ROSEAL_TRACKING_HEADER_NAME :: string where
  "ROSEAL_TRACKING_HEADER_NAME = ''_rosealRequest''"

definition ROSEAL_OVERRIDE_PLATFORM_TYPE_HEADER_NAME :: string where
  "ROSEAL_OVERRIDE_PLATFORM_TYPE_HEADER_NAME = ''_rosealPlatformType''"

definition CONTENT_SECURITY_POLICY_HEADER_NAME :: string where
  "CONTENT_SECURITY_POLICY_HEADER_NAME = ''content-security-policy''"

text \<open>The text \<^verbatim>\<open>img-src 'self'\<close> of line 258; the character 0x27 is the single quote.\<close>

definition IMG_SRC_SELF :: string where
  "IMG_SRC_SELF = ''img-src '' @ [CHR 0x27] @ ''self'' @ [CHR 0x27]"

record UserAgentOverride =
  userAgent :: string
  platformType :: string
  deviceType :: string

text \<open>\<open>getUserAgentOverrides\<close>; \<open>robloxVersion\<close> defaults to \<^verbatim>\<open>"0"\<close>.\<close>

definition getUserAgentOverrides :: "string option \<Rightarrow> UserAgentOverride list" where
  "getUserAgentOverrides robloxVersion0 =
     (let robloxVersion = orElse robloxVersion0 ''0'' in
      [\<lparr>userAgent = ''Roblox/WinInet RobloxApp/'' @ robloxVersion
                      @ '' (GlobalDist; RobloxDirectDownload)'',
        platformType = ''Desktop'', deviceType = ''Desktop''\<rparr>,
       \<lparr>userAgent = ''Roblox/XboxOne ROBLOX Xbox App 1.0.0'',
        platformType = ''Console'', deviceType = ''Console''\<rparr>,
       \<lparr>userAgent = ''(0MB; 0x0; 0x0; 0x0; ; 0) ROBLOX Android Tablet RobloxApp/'' @ robloxVersion
                      @ '' (GlobalDist; GooglePlayStore)'',
        platformType = ''Tablet'', deviceType = ''Tablet''\<rparr>,
       \<lparr>userAgent = ''(0MB; 0x0; 0x0; 0x0; ; 0) ROBLOX Android Phone RobloxApp/'' @ robloxVersion
                      @ '' (GlobalDist; GooglePlayStore)'',
        platformType = ''Phone'', deviceType = ''Phone''\<rparr>,
       \<lparr>userAgent = ''(0MB; 0x0; 0x0; 0x0; oculus Oculus Questseacliff; 0) ROBLOX Android VR OculusQuest3Store RobloxApp/''
                      @ robloxVersion @ '' (GlobalDist; OculusQuest3Store)'',
        platformType = ''VR'', deviceType = ''VR''\<rparr>])"

record HeaderModification =
  header :: string
  operation :: string
  header_value :: string

record RuleAction =
  action_type :: string
  requestHeaders :: "HeaderModification list option"
  responseHeaders :: "HeaderModification list option"

record RuleCondition =
  urlFilter :: string
  resourceTypes :: "string list"

record DNRRule =
  rule_id :: int
  priority :: int
  rule_action :: RuleAction
  condition :: RuleCondition

text \<open>The text of a \<^verbatim>\<open>Target\<close> in a template string.\<close>

fun targetName :: "Target \<Rightarrow> string" where
  "targetName chrome_target = ''chrome''"
| "targetName firefox_target = ''firefox''"
| "targetName edge_target = ''edge''"
| "targetName safari_target = ''safari''"

text \<open>
  \<^verbatim>\<open>s.replace(/{service}\.?/, "")\<close>: the first \<^verbatim>\<open>{service}\<close>, and the dot after it when
  there is one, is removed.
\<close>

definition removeService :: "string \<Rightarrow> string" where
  "removeService s =
     (case splitAtFirst ''{service}'' s of
        None \<Rightarrow> s
      | Some (pre, post) \<Rightarrow> pre @ (if startsWith post ''.'' then drop 1 post else post))"

text \<open>
  \<^verbatim>\<open>xs.map((item) => f(idx++, item))\<close>: the callback reads the counter and then adds one
  to it, for each element from left to right; the list and the counter's last value are
  returned.
\<close>

fun mapCounting :: "(int \<Rightarrow> 'a \<Rightarrow> 'b) \<Rightarrow> int \<Rightarrow> 'a list \<Rightarrow> 'b list \<times> int" where
  "mapCounting f idx [] = ([], idx)"
| "mapCounting f idx (item # items) =
     (let r = f idx item;
          (rs, idx') = mapCounting f (idx + 1) items
      in (r # rs, idx'))"

text \<open>
  \<open>writeDNRRules\<close> (build.ts, lines 203-294): the array that the function serialises and
  writes to \<^verbatim>\<open>dnr_rules.json\<close>. \<open>STATIC_RULES_START_ID\<close> is imported from
  \<^verbatim>\<open>src/ts/constants/dnrRules.ts\<close> and is a parameter here; rule ids are integers.
  \<open>outDir\<close> and \<open>devServers\<close> do not reach the array and are left out; \<open>versionText\<close>
  is the argument \<^verbatim>\<open>version\<close>.
\<close>

definition writeDNRRules ::
  "int \<Rightarrow> Target \<Rightarrow> bool \<Rightarrow> string \<Rightarrow> string option \<Rightarrow> string \<Rightarrow> DNRRule list" where
  "writeDNRRules STATIC_RULES_START_ID target isDev versionText robloxVersion cspPolicy =
     (let userAgentOverrides = getUserAgentOverrides robloxVersion;
          appendString = ''RoSealExtension (RoSeal/'' @ targetName target @ ''/'' @ versionText @ ''/''
                           @ (if isDev then ''dev'' else ''prod'') @ '')'';
          idx = STATIC_RULES_START_ID;
          (overrideRules, idx1) =
            mapCounting
              (\<lambda>i item.
                 \<lparr>rule_id = i, priority = 1,
                  rule_action =
                    \<lparr>action_type = ''modifyHeaders'',
                     requestHeaders =
                       Some [\<lparr>header = ''user-agent'', operation = ''set'',
                              header_value = userAgent item @ '' '' @ appendString\<rparr>],
                     responseHeaders = None\<rparr>,
                  condition =
                    \<lparr>urlFilter = ''||'' @ removeService ROBLOX_DOMAIN @ ''/*''
                                   @ ROSEAL_OVERRIDE_PLATFORM_TYPE_HEADER_NAME @ ''='' @ platformType item,
                     resourceTypes = [''xmlhttprequest'']\<rparr>\<rparr>)
              idx userAgentOverrides;
          cspRule =
            \<lparr>rule_id = idx1, priority = 1,
             rule_action =
               \<lparr>action_type = ''modifyHeaders'',
                requestHeaders = None,
                responseHeaders =
                  Some [\<lparr>header = CONTENT_SECURITY_POLICY_HEADER_NAME, operation = ''set'',
                         header_value =
                           replace cspPolicy IMG_SRC_SELF
                             (IMG_SRC_SELF @ '' '' @ TWEMOJI_EMOJI_BASE_URL @ '' ''
                                @ FLUENTUI_EMOJI_BASE_URL)\<rparr>]\<rparr>,
             condition =
               \<lparr>urlFilter = ''||'' @ replace ROBLOX_DOMAIN ''{service}'' ''www'' @ ''/*'',
                resourceTypes = [''main_frame'', ''sub_frame'']\<rparr>\<rparr>;
          idx2 = idx1 + 1;
          trackingRule =
            \<lparr>rule_id = idx2, priority = 1,
             rule_action =
               \<lparr>action_type = ''modifyHeaders'',
                requestHeaders =
                  Some [\<lparr>header = ''user-agent'', operation = ''append'',
                         header_value = appendString\<rparr>],
                responseHeaders = None\<rparr>,
             condition =
               \<lparr>urlFilter = ''||'' @ removeService ROBLOX_DOMAIN @ ''/*''
                              @ ROSEAL_TRACKING_HEADER_NAME,
                resourceTypes = [''xmlhttprequest'']\<rparr>\<rparr>
      in overrideRules @ [cspRule, trackingRule])"

section \<open>Build orchestration (scripts/build.ts)\<close>

text \<open>
  How a promise settles: the \<^verbatim>\<open>status\<close> of an element of the array that
  \<^verbatim>\<open>Promise.allSettled\<close> resolves to.
\<close>

datatype Settled = fulfilled | rejected

text \<open>The seven tasks of \<open>build\<close>, lines 597-631, named after the functions called.\<close>

datatype Step =
  BuildJS | WriteManifest | CopyAssets | WriteDNRRules | WriteI18n | WriteHTMLFiles | CompileSCSS

definition tasks :: "Step list" where
  "tasks = [BuildJS, WriteManifest, CopyAssets, WriteDNRRules, WriteI18n, WriteHTMLFiles, CompileSCSS]"

text \<open>
  What the file system, the bundler and the other tools do is outside the program; a
  \<open>BuildWorld\<close> says how each awaited operation of one run of \<open>build\<close> settles.
\<close>

record BuildWorld =
  emptyDir_settles :: Settled
  mkdir_settles :: Settled
  getManifest_settles :: Settled
  step_settles :: "Step \<Rightarrow> Settled"
  convertToSafariExtension_settles :: Settled

text \<open>
  What a run does, in order. \<open>Settle s r\<close> is the entry for step \<open>s\<close> in the result of
  \<^verbatim>\<open>Promise.allSettled\<close>; the entries are listed in the order of the array, which need not
  be the order in time.
\<close>

datatype BuildEvent =
  EmptyDir | Mkdir | GetManifest | Launch Step | Settle Step Settled | ConvertToSafariExtension

text \<open>
  Why the promise of \<open>build\<close> rejects: an awaited call before the tasks rejected, the
  \<^verbatim>\<open>throw "Build failed with errors"\<close> of line 639, or the Safari conversion rejected.
\<close>

datatype BuildError = PreparationFailed | BuildFailedWithErrors | ConversionFailed

text \<open>
  \<^verbatim>\<open>Promise.allSettled(tasks)\<close>: every task is waited for, and the result has one status
  per task, in the order of the array.
\<close>

definition allSettled :: "(Step \<Rightarrow> Settled) \<Rightarrow> Step list \<Rightarrow> Settled list" where
  "allSettled settles ts = map settles ts"

text \<open>
  \<open>build\<close>, lines 575-641. The array literal of line 597 calls the seven functions one
  after the other, which launches every task before any is waited for. Each call
  returns a promise: six of the functions wrap an \<^verbatim>\<open>async\<close> function, and
  \<open>writeDNRRules\<close>, which builds its text before it returns, does not raise on arguments
  of the declared types.
\<close>

definition build :: "BuildWorld \<Rightarrow> TargetBase \<Rightarrow> BuildEvent list \<times> (BuildError + unit)" where
  "build world targetBase =
     (if emptyDir_settles world = rejected then ([EmptyDir], Inl PreparationFailed)
      else if mkdir_settles world = rejected then ([EmptyDir, Mkdir], Inl PreparationFailed)
      else if getManifest_settles world = rejected
        then ([EmptyDir, Mkdir, GetManifest], Inl PreparationFailed)
      else
        (let result = allSettled (step_settles world) tasks;
             events = [EmptyDir, Mkdir, GetManifest] @ map Launch tasks
                        @ map (\<lambda>(s, r). Settle s r) (zip tasks result)
         in if list_all (\<lambda>r. r = fulfilled) result then
              (if targetBase = Apple then
                 (events @ [ConvertToSafariExtension],
                  if convertToSafariExtension_settles world = fulfilled then Inr ()
                  else Inl ConversionFailed)
               else (events, Inr ()))
            else (events, Inl BuildFailedWithErrors)))"

fun isSettle :: "BuildEvent \<Rightarrow> bool" where
  "isSettle (Settle s r) = True"
| "isSettle e = False"

section \<open>Development server (scripts/dev.ts)\<close>

text \<open>The object \<^verbatim>\<open>{ type }\<close> that \<open>handleChange\<close> serialises and sends.\<close>

record Notification =
  notification_type :: string

text \<open>
  \<open>handleChange\<close>, lines 94-109. \<open>updateLog\<close> returns the promise it is given, so the
  callback of \<^verbatim>\<open>.then\<close> runs when \<open>value\<close> is fulfilled and is skipped when \<open>value\<close> is
  rejected. \<open>connections\<close> is the set of open connections, in insertion order, at the
  time the callback runs. The result is the list of messages sent, with the connection
  each went to, and how the returned promise settles.
\<close>

definition handleChange ::
  "Settled \<Rightarrow> string option \<Rightarrow> 'c list \<Rightarrow> ('c \<times> Notification) list \<times> Settled" where
  "handleChange value type connections =
     (case value of
        rejected \<Rightarrow> ([], rejected)
      | fulfilled \<Rightarrow>
          (if truthy type
           then (map (\<lambda>connection. (connection, \<lparr>notification_type = orElse type []\<rparr>)) connections,
                 fulfilled)
           else ([], fulfilled)))"

text \<open>The six watchers of lines 111-190 and the \<open>type\<close> each passes to \<open>handleChange\<close>.\<close>

datatype Watched =
  watch_scss | watch_ts | watch_img | watch_i18n | watch_manifest | watch_html

fun watcherType :: "Watched \<Rightarrow> string option" where
  "watcherType watch_scss = Some ''CSS''"
| "watcherType watch_ts = Some ''Reload''"
| "watcherType watch_img = None"
| "watcherType watch_i18n = Some ''Reload''"
| "watcherType watch_manifest = Some ''Reload''"
| "watcherType watch_html = Some ''Reload''"

text \<open>A change under a watched path: the rebuild step settles as \<open>value\<close>.\<close>

definition onChange ::
  "Watched \<Rightarrow> Settled \<Rightarrow> 'c list \<Rightarrow> ('c \<times> Notification) list \<times> Settled" where
  "onChange watched value connections = handleChange value (watcherType watched) connections"

section \<open>Example inputs\<close>

text \<open>A small source manifest; the examples below start from it.\<close>

definition baseManifest :: Manifest where
  "baseManifest =
     \<lparr>schema = Some ''./manifest.schema.json'', manifest_version = 3, name = ''RoSeal'',
      short_name = None, version = Some ''2.0.0'', version_name = None,
      store_version = Some ''2.0.1'', beta = None, permissions = None,
      host_permissions = None, optional_permissions = None,
      optional_host_permissions = None, web_accessible_resources = None, background = None,
      action = None, browser_action = None, options_ui = None, incognito = None,
      browser_specific_settings = None, key = None, minimum_chrome_version = None\<rparr>"

definition exampleManifest :: Manifest where
  "exampleManifest =
     baseManifest\<lparr>host_permissions := Some [''*://example.com/*''],
                  permissions := Some [''storage'']\<rparr>"

text \<open>A source manifest with a Chromium settings block and a top-level key of its own.\<close>

definition settingsManifest :: Manifest where
  "settingsManifest =
     baseManifest\<lparr>key := Some ''top-level-key'',
       browser_specific_settings :=
         Some \<lparr>chrome = Some \<lparr>settings_id = None, beta_id = None,
                              settings_key = Some ''MIIBIjANBg'', beta_update_url = None,
                              strict_min_version = Some ''120'', strict_max_version = None,
                              update_url = None\<rparr>,
               firefox = None, safari = None, gecko = None, gecko_android = None\<rparr>\<rparr>"


text \<open>A source manifest with optional permissions of both kinds.\<close>

definition optionalManifest :: Manifest where
  "optionalManifest =
     baseManifest\<lparr>optional_host_permissions := Some [''*://*.rbxcdn.com/*''],
                  optional_permissions := Some [''cookies'', ''notifications'']\<rparr>"

text \<open>The record that \<open>getDevServersAvailable\<close> gives when no development server answers.\<close>

definition unreachableDevServers :: DevServersAvailable where
  "unreachableDevServers =
     \<lparr>IS_DEV_API_ACCESSIBLE = False, IS_DEV_WWW_ACCESSIBLE = False,
      IS_DEV_WS_ACCESSIBLE = False\<rparr>"


text \<open>A source manifest flagged beta, with Firefox settings that hold both beta fields.\<close>

definition betaManifest :: Manifest where
  "betaManifest =
     baseManifest\<lparr>beta := Some True,
       browser_specific_settings :=
         Some \<lparr>chrome = None,
               firefox = Some \<lparr>settings_id = Some ''roseal@roseal.live'',
                                beta_id = Some ''roseal-beta@roseal.live'',
                                settings_key = None,
                                beta_update_url = Some ''https://roseal.live/beta/updates.json'',
                                strict_min_version = Some ''109.0'', strict_max_version = None,
                                update_url = None, android = None\<rparr>,
               safari = None, gecko = None, gecko_android = None\<rparr>\<rparr>"

text \<open>
  The locale tree \<^verbatim>\<open>{"a": {"b": "Hello {name}"}}\<close>, the same tree with node \<open>a\<close> tagged
  \<^verbatim>\<open>$types: ["manifest"]\<close>, and a parser that answers for the one message of the tree.
\<close>

definition exampleLocale :: "(string \<times> I18nValue) list" where
  "exampleLocale = [(''a'', Detail None None None [(''b'', Text ''Hello {name}'')])]"

definition taggedLocale :: "(string \<times> I18nValue) list" where
  "taggedLocale =
     [(''a'', Detail (Some [env_manifest]) None None [(''b'', Text ''Hello {name}'')])]"

definition exampleParse :: "string \<Rightarrow> MessageFormatElement list" where
  "exampleParse s =
     (if s = ''Hello {name}'' then [LiteralElement ''Hello '', ArgumentElement ''name'']
      else [LiteralElement s])"


text \<open>
  Runs of \<open>build\<close>: every operation is fulfilled; only the stylesheet compilation is
  rejected; only the JS build is rejected.
\<close>

definition goodWorld :: BuildWorld where
  "goodWorld =
     \<lparr>emptyDir_settles = fulfilled, mkdir_settles = fulfilled, getManifest_settles = fulfilled,
      step_settles = (\<lambda>s. fulfilled), convertToSafariExtension_settles = fulfilled\<rparr>"

definition scssFailsWorld :: BuildWorld where
  "scssFailsWorld =
     goodWorld\<lparr>step_settles := (\<lambda>s. if s = CompileSCSS then rejected else fulfilled)\<rparr>"

definition jsFailsWorld :: BuildWorld where
  "jsFailsWorld =
     goodWorld\<lparr>step_settles := (\<lambda>s. if s = BuildJS then rejected else fulfilled)\<rparr>"

section \<open>Properties of transformManifest\<close>

subsection \<open>Auxiliary facts\<close>

lemma orElse_None: "orElse None d = d"
  by (simp add: orElse_def)

lemma orElse_Some: "orElse (Some v) d = v"
  by (simp add: orElse_def)

lemma dropSourceMaps_Inr:
  assumes "dropSourceMaps m isDev = Inr m1"
  shows "m1 = m\<lparr>web_accessible_resources := web_accessible_resources m1\<rparr>"
  using assms
  by (auto simp: dropSourceMaps_def split: option.splits if_splits sum.splits)

lemma dropSourceMaps_total:
  assumes "isSourceManifest m"
  shows "\<exists>m1. dropSourceMaps m isDev = Inr m1 \<and> isSourceManifest m1"
  using assms
  by (auto simp: dropSourceMaps_def removeSourceMaps_def isSourceManifest_def Let_def
        split: option.splits WebAccessibleResources.splits)

lemma rewriteForTarget_total:
  assumes "isSourceManifest m"
  shows "\<exists>m2. rewriteForTarget m targetBase = Inr m2"
  using assms
  by (auto simp: rewriteForTarget_def flattenResources_def isSourceManifest_def
        split: option.splits WebAccessibleResources.splits)


lemma isSourceManifest_addLocalhost:
  "isSourceManifest (addLocalhost m isDev ds) = isSourceManifest m"
  by (simp add: isSourceManifest_def addLocalhost_def)

lemma isSourceManifest_markBeta:
  "isSourceManifest (markBeta m isDev) = isSourceManifest m"
  by (simp add: isSourceManifest_def markBeta_def)

lemma isSourceManifest_schema:
  "isSourceManifest (m\<lparr>schema := s\<rparr>) = isSourceManifest m"
  by (simp add: isSourceManifest_def)

lemma transformManifest_total:
  assumes "isSourceManifest m"
  shows "\<exists>out. transformManifest m targetBase isDev devServers = Inr out"
proof -
  from assms have "isSourceManifest (m\<lparr>schema := None\<rparr>)"
    by (simp add: isSourceManifest_schema)
  then obtain m1 where d: "dropSourceMaps (m\<lparr>schema := None\<rparr>) isDev = Inr m1"
    and s: "isSourceManifest m1"
    using dropSourceMaps_total by blast
  from s have "isSourceManifest (markBeta (addLocalhost m1 isDev devServers) isDev)"
    by (simp add: isSourceManifest_markBeta isSourceManifest_addLocalhost)
  then obtain m2 where
    "rewriteForTarget (markBeta (addLocalhost m1 isDev devServers) isDev) targetBase = Inr m2"
    using rewriteForTarget_total by blast
  with d show ?thesis by (simp add: transformManifest_def)
qed

text \<open>The stages of a run that returns.\<close>

lemma transformManifest_Inr:
  assumes "transformManifest m targetBase isDev devServers = Inr out"
  obtains m1 m2 where
    "dropSourceMaps (m\<lparr>schema := None\<rparr>) isDev = Inr m1"
    "rewriteForTarget (markBeta (addLocalhost m1 isDev devServers) isDev) targetBase = Inr m2"
    "out = (stripForApple (narrowSettings m2 targetBase isDev) targetBase)\<lparr>beta := None\<rparr>"
  using assms
  by (auto simp: transformManifest_def split: sum.splits)

lemma rewriteForTarget_Firefox_Inr:
  assumes "rewriteForTarget m Firefox = Inr m2"
  shows "m2 = m\<lparr>store_version := None,
                    version := store_version m,
                    manifest_version := 2,
                    version_name := None,
                    host_permissions := None,
                    optional_host_permissions := None,
                    optional_permissions :=
                      Some (orElse (optional_host_permissions m) [] @ orElse (optional_permissions m) []),
                    permissions := Some (orElse (host_permissions m) [] @ orElse (permissions m) []),
                    action := None,
                    browser_action := action m,
                    incognito := Some ''spanning'',
                    background :=
                      map_option
                        (\<lambda>b. \<lparr>service_worker = None, background_type = None,
                               scripts = Some [service_worker b]\<rparr>)
                        (background m),
                    web_accessible_resources := web_accessible_resources m2\<rparr>"
  using assms
  by (auto simp: rewriteForTarget_def split: option.splits sum.splits)


lemma stripForApple_other: "targetBase \<noteq> Apple \<Longrightarrow> stripForApple m targetBase = m"
  by (simp add: stripForApple_def)

lemma transformManifest_Firefox_fields:
  assumes "transformManifest m Firefox isDev devServers = Inr out"
  shows "manifest_version out = 2"
    and "host_permissions out = None"
    and "optional_host_permissions out = None"
    and "permissions out =
           Some (orElse (host_permissions (addLocalhost m isDev devServers)) [] @ orElse (permissions m) [])"
    and "optional_permissions out =
           Some (orElse (optional_host_permissions m) [] @ orElse (optional_permissions m) [])"
proof -
  from assms obtain m1 m2 where
    d: "dropSourceMaps (m\<lparr>schema := None\<rparr>) isDev = Inr m1" and
    r: "rewriteForTarget (markBeta (addLocalhost m1 isDev devServers) isDev) Firefox = Inr m2" and
    out: "out = (stripForApple (narrowSettings m2 Firefox isDev) Firefox)\<lparr>beta := None\<rparr>"
    by (rule transformManifest_Inr)
  note m1 = dropSourceMaps_Inr [OF d]
  note m2 = rewriteForTarget_Firefox_Inr [OF r]
  have out': "out = (narrowSettings m2 Firefox isDev)\<lparr>beta := None\<rparr>"
    using out by (simp add: stripForApple_def)
  show "manifest_version out = 2"
    by (subst out', subst m2) (simp add: narrowSettings_def split: option.splits)
  show "host_permissions out = None"
    by (subst out', subst m2) (simp add: narrowSettings_def split: option.splits)
  show "optional_host_permissions out = None"
    by (subst out', subst m2) (simp add: narrowSettings_def split: option.splits)
  have hp: "host_permissions (markBeta (addLocalhost m1 isDev devServers) isDev)
              = host_permissions (addLocalhost m isDev devServers)"
    by (subst m1) (simp add: markBeta_def addLocalhost_def)
  have p: "permissions (markBeta (addLocalhost m1 isDev devServers) isDev) = permissions m"
    by (subst m1) (simp add: markBeta_def addLocalhost_def)
  have ohp: "optional_host_permissions (markBeta (addLocalhost m1 isDev devServers) isDev)
              = optional_host_permissions m"
    by (subst m1) (simp add: markBeta_def addLocalhost_def)
  have op: "optional_permissions (markBeta (addLocalhost m1 isDev devServers) isDev)
              = optional_permissions m"
    by (subst m1) (simp add: markBeta_def addLocalhost_def)
  show "permissions out =
           Some (orElse (host_permissions (addLocalhost m isDev devServers)) [] @ orElse (permissions m) [])"
    by (subst out', subst m2) (simp add: narrowSettings_def hp p split: option.splits)
  show "optional_permissions out =
           Some (orElse (optional_host_permissions m) [] @ orElse (optional_permissions m) [])"
    by (subst out', subst m2) (simp add: narrowSettings_def ohp op split: option.splits)
qed




subsection \<open>Gecko permissions\<close>

text \<open>
  Claim C1. For every source manifest and every build mode (\<open>isDev\<close>, \<open>devServers\<close>),
  \<open>transformManifest\<close> for the Gecko family returns a manifest whose \<open>manifest_version\<close>
  is 2, that has no \<open>host_permissions\<close>, and whose \<open>permissions\<close> list holds every entry
  of the source's \<open>host_permissions\<close> and every entry of the source's \<open>permissions\<close>. For a
  production build of a source with \<open>host_permissions\<close> \<^verbatim>\<open>["*://example.com/*"]\<close> and
  \<open>permissions\<close> \<^verbatim>\<open>["storage"]\<close>, the output's permissions are, as a set, exactly these
  two.
\<close>

theorem transformManifest_gecko_permissions:
  assumes "isSourceManifest m"
  shows "\<exists>out ps. transformManifest m Firefox isDev devServers = Inr out
           \<and> manifest_version out = 2
           \<and> host_permissions out = None
           \<and> permissions out = Some ps
           \<and> set (orElse (host_permissions m) []) \<subseteq> set ps
           \<and> set (orElse (permissions m) []) \<subseteq> set ps
           \<and> (\<not> isDev \<and> host_permissions m = Some [''*://example.com/*'']
                 \<and> permissions m = Some [''storage'']
               \<longrightarrow> set ps = {''*://example.com/*'', ''storage''})"
proof -
  from assms obtain out where out: "transformManifest m Firefox isDev devServers = Inr out"
    using transformManifest_total by blast
  define ps where
    "ps = orElse (host_permissions (addLocalhost m isDev devServers)) [] @ orElse (permissions m) []"
  have 1: "manifest_version out = 2" and 2: "host_permissions out = None"
    and 3: "permissions out = Some ps"
    using transformManifest_Firefox_fields [OF out] by (simp_all add: ps_def)
  have 4: "set (orElse (host_permissions m) []) \<subseteq> set ps"
    by (cases "host_permissions m") (auto simp: ps_def addLocalhost_def orElse_None orElse_Some)
  have 5: "set (orElse (permissions m) []) \<subseteq> set ps"
    by (simp add: ps_def)
  have 6: "\<not> isDev \<and> host_permissions m = Some [''*://example.com/*'']
                 \<and> permissions m = Some [''storage'']
               \<longrightarrow> set ps = {''*://example.com/*'', ''storage''}"
    by (simp add: ps_def addLocalhost_def orElse_None orElse_Some)
  have body: "transformManifest m Firefox isDev devServers = Inr out
           \<and> manifest_version out = 2
           \<and> host_permissions out = None
           \<and> permissions out = Some ps
           \<and> set (orElse (host_permissions m) []) \<subseteq> set ps
           \<and> set (orElse (permissions m) []) \<subseteq> set ps
           \<and> (\<not> isDev \<and> host_permissions m = Some [''*://example.com/*'']
                 \<and> permissions m = Some [''storage'']
               \<longrightarrow> set ps = {''*://example.com/*'', ''storage''})"
    using out 1 2 3 4 5 6 by (intro conjI)
  show ?thesis
    by (rule exI [of _ out], rule exI [of _ ps], rule body)
qed



text \<open>The example of the claim, a production build of \<open>exampleManifest\<close>.\<close>

theorem transformManifest_gecko_permissions_witness:
  "isSourceManifest exampleManifest
   \<and> (\<exists>out ps. transformManifest exampleManifest Firefox False None = Inr out
         \<and> manifest_version out = 2
         \<and> host_permissions out = None
         \<and> permissions out = Some ps
         \<and> set ps = {''*://example.com/*'', ''storage''})"
proof -
  have s: "isSourceManifest exampleManifest"
    by (simp add: isSourceManifest_def exampleManifest_def baseManifest_def)
  have hp: "host_permissions exampleManifest = Some [''*://example.com/*'']"
    and p: "permissions exampleManifest = Some [''storage'']"
    by (simp_all add: exampleManifest_def)
  from transformManifest_gecko_permissions [OF s, of False None]
  obtain out ps where
    "transformManifest exampleManifest Firefox False None = Inr out"
    "manifest_version out = 2" "host_permissions out = None" "permissions out = Some ps"
    "\<not> False \<and> host_permissions exampleManifest = Some [''*://example.com/*'']
       \<and> permissions exampleManifest = Some [''storage'']
     \<longrightarrow> set ps = {''*://example.com/*'', ''storage''}"
    by (elim exE conjE)
  with hp p have
    "transformManifest exampleManifest Firefox False None = Inr out
         \<and> manifest_version out = 2
         \<and> host_permissions out = None
         \<and> permissions out = Some ps
         \<and> set ps = {''*://example.com/*'', ''storage''}"
    by simp
  then have "\<exists>out ps. transformManifest exampleManifest Firefox False None = Inr out
         \<and> manifest_version out = 2
         \<and> host_permissions out = None
         \<and> permissions out = Some ps
         \<and> set ps = {''*://example.com/*'', ''storage''}"
    by (intro exI)
  with s show ?thesis by (rule conjI)
qed

subsection \<open>Gecko optional permissions\<close>

text \<open>
  Claim C10. For the Gecko family \<open>transformManifest\<close> also merges the optional host
  permissions: the output's \<open>optional_permissions\<close> is the source's
  \<open>optional_host_permissions\<close> followed by the source's \<open>optional_permissions\<close> (an absent
  list counting as empty), and the output has no \<open>optional_host_permissions\<close>.
\<close>

theorem transformManifest_gecko_optional_permissions:
  assumes "isSourceManifest m"
  shows "\<exists>out. transformManifest m Firefox isDev devServers = Inr out
           \<and> optional_permissions out =
               Some (orElse (optional_host_permissions m) [] @ orElse (optional_permissions m) [])
           \<and> optional_host_permissions out = None"
proof -
  from assms obtain out where out: "transformManifest m Firefox isDev devServers = Inr out"
    using transformManifest_total by blast
  from out transformManifest_Firefox_fields(3,5) [OF out] show ?thesis
    by (intro exI [of _ out] conjI)
qed


theorem transformManifest_gecko_optional_permissions_witness:
  "isSourceManifest optionalManifest
   \<and> (\<exists>out. transformManifest optionalManifest Firefox False None = Inr out
         \<and> optional_permissions out = Some [''*://*.rbxcdn.com/*'', ''cookies'', ''notifications'']
         \<and> optional_host_permissions out = None)"
proof -
  have s: "isSourceManifest optionalManifest"
    by (simp add: isSourceManifest_def optionalManifest_def baseManifest_def)
  have o: "orElse (optional_host_permissions optionalManifest) []
             @ orElse (optional_permissions optionalManifest) []
           = [''*://*.rbxcdn.com/*'', ''cookies'', ''notifications'']"
    by (simp add: optionalManifest_def orElse_Some)
  have "\<exists>out. transformManifest optionalManifest Firefox False None = Inr out
         \<and> optional_permissions out = Some [''*://*.rbxcdn.com/*'', ''cookies'', ''notifications'']
         \<and> optional_host_permissions out = None"
    using transformManifest_gecko_optional_permissions [OF s, of False None]
    by (simp only: o)
  with s show ?thesis by (rule conjI)
qed


subsection \<open>The Chromium settings block\<close>

lemma rewriteForTarget_other:
  assumes "targetBase \<noteq> Firefox"
  shows "rewriteForTarget m targetBase =
           Inr (m\<lparr>options_ui := None,
                  store_version := None,
                  version := store_version m,
                  version_name :=
                    map_option (\<lambda>vn. replace vn ''__manifest_version__'' (toString (version m)))
                      (version_name m)\<rparr>)"
  using assms by (simp add: rewriteForTarget_def)

text \<open>What reaches the switch over the settings block is what the source manifest holds.\<close>

lemma settings_reach_switch:
  assumes d: "dropSourceMaps (m\<lparr>schema := None\<rparr>) isDev = Inr m1"
    and r: "rewriteForTarget (markBeta (addLocalhost m1 isDev devServers) isDev) targetBase = Inr m2"
  shows "browser_specific_settings m2 = browser_specific_settings m"
    and "key m2 = key m"
    and "beta m2 = beta m"
proof -
  note m1 = dropSourceMaps_Inr [OF d]
  have pre: "browser_specific_settings (markBeta (addLocalhost m1 isDev devServers) isDev)
               = browser_specific_settings m
             \<and> key (markBeta (addLocalhost m1 isDev devServers) isDev) = key m
             \<and> beta (markBeta (addLocalhost m1 isDev devServers) isDev) = beta m"
    by (subst m1, subst m1, subst m1) (simp add: markBeta_def addLocalhost_def)
  have "browser_specific_settings m2 = browser_specific_settings m
        \<and> key m2 = key m \<and> beta m2 = beta m"
  proof (cases "targetBase = Firefox")
    case True
    with r have "rewriteForTarget (markBeta (addLocalhost m1 isDev devServers) isDev) Firefox = Inr m2"
      by simp
    note m2 = rewriteForTarget_Firefox_Inr [OF this]
    show ?thesis by (subst m2, subst m2, subst m2) (simp add: pre)
  next
    case False
    from r rewriteForTarget_other [OF False, of "markBeta (addLocalhost m1 isDev devServers) isDev"]
    have m2: "m2 = (markBeta (addLocalhost m1 isDev devServers) isDev)\<lparr>options_ui := None,
                  store_version := None,
                  version := store_version (markBeta (addLocalhost m1 isDev devServers) isDev),
                  version_name :=
                    map_option (\<lambda>vn. replace vn ''__manifest_version__''
                        (toString (version (markBeta (addLocalhost m1 isDev devServers) isDev))))
                      (version_name (markBeta (addLocalhost m1 isDev devServers) isDev))\<rparr>"
      by simp
    show ?thesis by (subst m2, subst m2, subst m2) (simp add: pre)
  qed
  then show "browser_specific_settings m2 = browser_specific_settings m"
    and "key m2 = key m" and "beta m2 = beta m"
    by simp_all
qed


text \<open>
  Claim C9. For the Chromium family and a source with a \<open>browser_specific_settings\<close>
  block, the top-level \<open>key\<close> is taken from the chrome settings only in a development
  build; a production build keeps the \<open>key\<close> the source had at top level. In both modes
  \<open>minimum_chrome_version\<close> is the chrome settings' \<open>strict_min_version\<close> and the output
  has no \<open>browser_specific_settings\<close>.
\<close>

theorem transformManifest_chromium_key:
  assumes "isSourceManifest m" and "browser_specific_settings m = Some b"
  shows "\<exists>out. transformManifest m Chromium isDev devServers = Inr out
           \<and> key out = (if isDev then Option.bind (chrome b) settings_key else key m)
           \<and> minimum_chrome_version out = Option.bind (chrome b) strict_min_version
           \<and> browser_specific_settings out = None"
proof -
  from assms(1) obtain out where out: "transformManifest m Chromium isDev devServers = Inr out"
    using transformManifest_total by blast
  then obtain m1 m2 where
    d: "dropSourceMaps (m\<lparr>schema := None\<rparr>) isDev = Inr m1" and
    r: "rewriteForTarget (markBeta (addLocalhost m1 isDev devServers) isDev) Chromium = Inr m2" and
    o: "out = (stripForApple (narrowSettings m2 Chromium isDev) Chromium)\<lparr>beta := None\<rparr>"
    by (rule transformManifest_Inr)
  have b: "browser_specific_settings m2 = Some b" and k: "key m2 = key m"
    using settings_reach_switch [OF d r] assms(2) by simp_all
  have "key out = (if isDev then Option.bind (chrome b) settings_key else key m)
        \<and> minimum_chrome_version out = Option.bind (chrome b) strict_min_version
        \<and> browser_specific_settings out = None"
    by (subst o, subst o, subst o) (simp add: stripForApple_def narrowSettings_def b k)
  with out show ?thesis
    by (intro exI [of _ out] conjI) simp_all
qed


text \<open>A development build and a production build of \<open>settingsManifest\<close>.\<close>

theorem transformManifest_chromium_key_witness:
  "isSourceManifest settingsManifest
   \<and> (\<exists>out. transformManifest settingsManifest Chromium True None = Inr out
         \<and> key out = Some ''MIIBIjANBg''
         \<and> minimum_chrome_version out = Some ''120''
         \<and> browser_specific_settings out = None)
   \<and> (\<exists>out. transformManifest settingsManifest Chromium False None = Inr out
         \<and> key out = Some ''top-level-key''
         \<and> minimum_chrome_version out = Some ''120''
         \<and> browser_specific_settings out = None)"
proof -
  have s: "isSourceManifest settingsManifest"
    by (simp add: isSourceManifest_def settingsManifest_def baseManifest_def)
  have b: "browser_specific_settings settingsManifest =
         Some \<lparr>chrome = Some \<lparr>settings_id = None, beta_id = None,
                              settings_key = Some ''MIIBIjANBg'', beta_update_url = None,
                              strict_min_version = Some ''120'', strict_max_version = None,
                              update_url = None\<rparr>,
               firefox = None, safari = None, gecko = None, gecko_android = None\<rparr>"
    and k: "key settingsManifest = Some ''top-level-key''"
    by (simp_all add: settingsManifest_def)
  have dev: "\<exists>out. transformManifest settingsManifest Chromium True None = Inr out
         \<and> key out = Some ''MIIBIjANBg''
         \<and> minimum_chrome_version out = Some ''120''
         \<and> browser_specific_settings out = None"
    using transformManifest_chromium_key [OF s b, of True None] by simp
  have prod: "\<exists>out. transformManifest settingsManifest Chromium False None = Inr out
         \<and> key out = Some ''top-level-key''
         \<and> minimum_chrome_version out = Some ''120''
         \<and> browser_specific_settings out = None"
    using transformManifest_chromium_key [OF s b, of False None] k by simp
  from s dev prod show ?thesis by (intro conjI)
qed

subsection \<open>Evaluation of examples\<close>

lemmas transformManifest_defs =
  transformManifest_def dropSourceMaps_def removeSourceMaps_def addLocalhost_def markBeta_def
  rewriteForTarget_def flattenResources_def narrowSettings_def geckoSettings_def
  stripForApple_def orElse_def toString_def


subsection \<open>The localhost host permission\<close>

lemma host_permissions_addLocalhost:
  "host_permissions (addLocalhost m isDev devServers) =
     (if isDev \<and> devServers \<noteq> None
      then Some (orElse (host_permissions m) [] @ [''*://localhost/*''])
      else host_permissions m)"
  by (cases devServers) (simp_all add: addLocalhost_def)

lemma transformManifest_other_host_permissions:
  assumes out: "transformManifest m targetBase isDev devServers = Inr out"
    and tb: "targetBase \<noteq> Firefox"
  shows "host_permissions out = host_permissions (addLocalhost m isDev devServers)"
proof -
  from out obtain m1 m2 where
    d: "dropSourceMaps (m\<lparr>schema := None\<rparr>) isDev = Inr m1" and
    r: "rewriteForTarget (markBeta (addLocalhost m1 isDev devServers) isDev) targetBase = Inr m2" and
    o: "out = (stripForApple (narrowSettings m2 targetBase isDev) targetBase)\<lparr>beta := None\<rparr>"
    by (rule transformManifest_Inr)
  note m1 = dropSourceMaps_Inr [OF d]
  have hp: "host_permissions (markBeta (addLocalhost m1 isDev devServers) isDev)
              = host_permissions (addLocalhost m isDev devServers)"
    by (subst m1) (simp add: markBeta_def addLocalhost_def)
  from r rewriteForTarget_other [OF tb, of "markBeta (addLocalhost m1 isDev devServers) isDev"]
  have m2: "m2 = (markBeta (addLocalhost m1 isDev devServers) isDev)\<lparr>options_ui := None,
                store_version := None,
                version := store_version (markBeta (addLocalhost m1 isDev devServers) isDev),
                version_name :=
                  map_option (\<lambda>vn. replace vn ''__manifest_version__''
                      (toString (version (markBeta (addLocalhost m1 isDev devServers) isDev))))
                    (version_name (markBeta (addLocalhost m1 isDev devServers) isDev))\<rparr>"
    by simp
  have "host_permissions m2 = host_permissions (addLocalhost m isDev devServers)"
    by (subst m2) (simp add: hp)
  then show ?thesis
    by (subst o) (simp add: stripForApple_def narrowSettings_def split: option.splits TargetBase.splits)
qed


text \<open>
  Claim C3, as stated, fails: a development build that is given the record in which no
  development server is reachable still gets \<^verbatim>\<open>*://localhost/*\<close> appended.
\<close>

theorem transformManifest_localhost_counterexample:
  "\<not> IS_DEV_API_ACCESSIBLE unreachableDevServers
   \<and> \<not> IS_DEV_WWW_ACCESSIBLE unreachableDevServers
   \<and> \<not> IS_DEV_WS_ACCESSIBLE unreachableDevServers
   \<and> transformManifest exampleManifest Chromium True (Some unreachableDevServers)
       = Inr (exampleManifest\<lparr>schema := None, store_version := None, version := Some ''2.0.1'',
                host_permissions := Some [''*://example.com/*'', ''*://localhost/*'']\<rparr>)"
  by (simp add: unreachableDevServers_def exampleManifest_def baseManifest_def
        transformManifest_defs)


text \<open>
  Claim C3, amended. \<open>transformManifest\<close> appends \<^verbatim>\<open>*://localhost/*\<close> to the host
  permissions exactly when the build is a development build and a reachability record
  is passed, whatever the record's flags say; otherwise the host permissions are those
  of the source. For the Gecko family the host permissions, so extended, are the front
  part of \<open>permissions\<close>; for the other families they are the output's
  \<open>host_permissions\<close>.
\<close>

theorem transformManifest_localhost:
  assumes "isSourceManifest m"
  shows "\<exists>out. transformManifest m targetBase isDev devServers = Inr out
           \<and> (if targetBase = Firefox
               then permissions out
                      = Some (orElse (host_permissions m) []
                                @ (if isDev \<and> devServers \<noteq> None then [''*://localhost/*''] else [])
                                @ orElse (permissions m) [])
               else host_permissions out
                      = (if isDev \<and> devServers \<noteq> None
                         then Some (orElse (host_permissions m) [] @ [''*://localhost/*''])
                         else host_permissions m))"
proof -
  from assms obtain out where out: "transformManifest m targetBase isDev devServers = Inr out"
    using transformManifest_total by blast
  have "if targetBase = Firefox
        then permissions out
               = Some (orElse (host_permissions m) []
                         @ (if isDev \<and> devServers \<noteq> None then [''*://localhost/*''] else [])
                         @ orElse (permissions m) [])
        else host_permissions out
               = (if isDev \<and> devServers \<noteq> None
                  then Some (orElse (host_permissions m) [] @ [''*://localhost/*''])
                  else host_permissions m)"
  proof (cases "targetBase = Firefox")
    case True
    with out have "transformManifest m Firefox isDev devServers = Inr out" by simp
    from transformManifest_Firefox_fields(4) [OF this] True show ?thesis
      by (simp add: host_permissions_addLocalhost orElse_Some)
  next
    case False
    from transformManifest_other_host_permissions [OF out False] False show ?thesis
      by (simp add: host_permissions_addLocalhost)
  qed
  with out show ?thesis
    by (intro exI [of _ out] conjI)
qed


text \<open>
  Development builds of \<open>exampleManifest\<close>: with the record of unreachable servers, and
  without a record.
\<close>

theorem transformManifest_localhost_witness:
  "isSourceManifest exampleManifest
   \<and> (\<exists>out. transformManifest exampleManifest Chromium True (Some unreachableDevServers) = Inr out
         \<and> host_permissions out = Some [''*://example.com/*'', ''*://localhost/*''])
   \<and> (\<exists>out. transformManifest exampleManifest Chromium True None = Inr out
         \<and> host_permissions out = Some [''*://example.com/*''])
   \<and> (\<exists>out. transformManifest exampleManifest Firefox True (Some unreachableDevServers) = Inr out
         \<and> permissions out = Some [''*://example.com/*'', ''*://localhost/*'', ''storage''])"
proof -
  have s: "isSourceManifest exampleManifest"
    by (simp add: isSourceManifest_def exampleManifest_def baseManifest_def)
  have hp: "host_permissions exampleManifest = Some [''*://example.com/*'']"
    and p: "permissions exampleManifest = Some [''storage'']"
    by (simp_all add: exampleManifest_def)
  have 1: "\<exists>out. transformManifest exampleManifest Chromium True (Some unreachableDevServers) = Inr out
         \<and> host_permissions out = Some [''*://example.com/*'', ''*://localhost/*'']"
    using transformManifest_localhost [OF s, of Chromium True "Some unreachableDevServers"]
    by (simp add: hp orElse_Some)
  have 2: "\<exists>out. transformManifest exampleManifest Chromium True None = Inr out
         \<and> host_permissions out = Some [''*://example.com/*'']"
    using transformManifest_localhost [OF s, of Chromium True None]
    by (simp add: hp)
  have 3: "\<exists>out. transformManifest exampleManifest Firefox True (Some unreachableDevServers) = Inr out
         \<and> permissions out = Some [''*://example.com/*'', ''*://localhost/*'', ''storage'']"
    using transformManifest_localhost [OF s, of Firefox True "Some unreachableDevServers"]
    by (simp add: hp p orElse_Some)
  from s 1 2 3 show ?thesis by (intro conjI)
qed


subsection \<open>The Gecko identity block of a beta build\<close>

text \<open>
  Claim C2 asks that, for a production build of a manifest flagged beta, the gecko
  block's \<open>update_url\<close> be the settings' \<open>beta_update_url\<close>. Line 213 reads \<open>beta_id\<close>
  instead: in the production Gecko build of \<open>betaManifest\<close> the gecko block has the beta
  identifier both as its id and as its \<open>update_url\<close>, and the settings'
  \<open>beta_update_url\<close> is nowhere in the output.
\<close>

theorem transformManifest_gecko_update_url:
  "transformManifest betaManifest Firefox False None
     = Inr (baseManifest\<lparr>schema := None, manifest_version := 2, name := ''RoSeal BETA'',
              short_name := Some ''RoSeal BETA'', version := Some ''2.0.1'',
              store_version := None, permissions := Some [], optional_permissions := Some [],
              incognito := Some ''spanning'',
              browser_specific_settings :=
                Some \<lparr>chrome = None, firefox = None, safari = None,
                      gecko = Some \<lparr>settings_id = Some ''roseal-beta@roseal.live'',
                                     beta_id = None, settings_key = None,
                                     beta_update_url = None,
                                     strict_min_version = Some ''109.0'',
                                     strict_max_version = None,
                                     update_url = Some ''roseal-beta@roseal.live'',
                                     android = None\<rparr>,
                      gecko_android = None\<rparr>\<rparr>)"
  by (simp add: betaManifest_def baseManifest_def transformManifest_defs)


text \<open>In general: the update URL of a production beta build is the beta identifier.\<close>

lemma geckoSettings_beta:
  assumes "firefox b = Some f"
  shows "gecko (geckoSettings b (Some True) False)
           = Some (f\<lparr>beta_id := None, beta_update_url := None, settings_id := beta_id f,
                     update_url := beta_id f, android := None\<rparr>)"
  using assms by (simp add: geckoSettings_def)


subsection \<open>A second pass over the output\<close>

lemma map_filter_twice:
  "map_option (filter P) (map_option (filter P) x) = map_option (filter P) x"
  by (cases x) simp_all

lemma removeSourceMaps_idem:
  assumes "removeSourceMaps w = Inr (Some w')"
  shows "removeSourceMaps w' = Inr (Some w')"
proof (cases w)
  case (Grouped gs)
  define strip where
    "strip = (\<lambda>data :: ResourceGroup.
                data\<lparr>resources := filter (\<lambda>item. \<not> endsWith item ''.map'') (resources data)\<rparr>)"
  define kept where "kept = filter (\<lambda>item. 0 < length (resources item)) (map strip gs)"
  from assms Grouped have w': "w' = Grouped kept" and ne: "kept \<noteq> []"
    by (auto simp: removeSourceMaps_def Let_def strip_def kept_def split: if_splits)
  have "\<forall>g \<in> set kept. strip g = g"
    by (auto simp: kept_def strip_def)
  then have 1: "map strip kept = kept"
    by (simp add: map_idI)
  have 2: "filter (\<lambda>item. 0 < length (resources item)) kept = kept"
    by (simp add: kept_def)
  from 1 2 ne w' show ?thesis
    by (simp add: removeSourceMaps_def Let_def strip_def)
next
  case (Flat xs)
  with assms show ?thesis
    by (simp add: removeSourceMaps_def split: if_splits)
qed

text \<open>A second pass of lines 127-137 over the output of the first changes nothing.\<close>

lemma dropSourceMaps_again:
  assumes "dropSourceMaps m isDev = Inr m1"
    and "web_accessible_resources out = web_accessible_resources m1"
  shows "dropSourceMaps out isDev = Inr out"
proof (cases "web_accessible_resources m1")
  case None
  with assms(2) show ?thesis by (simp add: dropSourceMaps_def)
next
  case (Some w')
  show ?thesis
  proof (cases isDev)
    case True
    with assms(2) Some show ?thesis by (simp add: dropSourceMaps_def)
  next
    case False
    from assms(1) False Some obtain w where "removeSourceMaps w = Inr (Some w')"
      by (auto simp: dropSourceMaps_def split: option.splits sum.splits)
    then have "removeSourceMaps w' = Inr (Some w')" by (rule removeSourceMaps_idem)
    with assms(2) Some False show ?thesis by (simp add: dropSourceMaps_def)
  qed
qed



text \<open>
  Claim C8, as stated, fails: \<open>version\<close> is read from \<open>store_version\<close>, which the first
  pass clears, so a second pass over the output of a production Chromium build of
  \<open>baseManifest\<close> loses the version.
\<close>

theorem transformManifest_not_idempotent:
  "transformManifest baseManifest Chromium False None
     = Inr (baseManifest\<lparr>schema := None, store_version := None, version := Some ''2.0.1''\<rparr>)
   \<and> transformManifest
         (baseManifest\<lparr>schema := None, store_version := None, version := Some ''2.0.1''\<rparr>)
         Chromium False None
     = Inr (baseManifest\<lparr>schema := None, store_version := None, version := None\<rparr>)
   \<and> (case transformManifest baseManifest Chromium False None of
         Inl e \<Rightarrow> Inl e
       | Inr once \<Rightarrow> transformManifest once Chromium False None)
     \<noteq> transformManifest baseManifest Chromium False None"
  by (simp add: baseManifest_def transformManifest_defs)


text \<open>
  Claim C8, amended. For the Chromium and Apple families, \<open>transformManifest\<close> applied to
  its own output, with the same target base and mode, returns that output except that
  \<open>version\<close> is now absent, \<open>version_name\<close> has gone through the substitution of
  \<^verbatim>\<open>__manifest_version__\<close> once more, and, in a development build that is given a
  reachability record, \<^verbatim>\<open>*://localhost/*\<close> is appended once more.
\<close>

theorem transformManifest_second_pass:
  assumes out: "transformManifest m targetBase isDev devServers = Inr out"
    and tb: "targetBase \<noteq> Firefox"
  shows "transformManifest out targetBase isDev devServers =
           Inr (out\<lparr>version := None,
                  version_name :=
                    map_option (\<lambda>vn. replace vn ''__manifest_version__'' (toString (version out)))
                      (version_name out),
                  host_permissions :=
                    (if devServers \<noteq> None \<and> isDev
                     then Some (orElse (host_permissions out) [] @ [''*://localhost/*''])
                     else host_permissions out)\<rparr>)"
proof -
  from out obtain m1 m2 where
    d: "dropSourceMaps (m\<lparr>schema := None\<rparr>) isDev = Inr m1" and
    r: "rewriteForTarget (markBeta (addLocalhost m1 isDev devServers) isDev) targetBase = Inr m2" and
    o: "out = (stripForApple (narrowSettings m2 targetBase isDev) targetBase)\<lparr>beta := None\<rparr>"
    by (rule transformManifest_Inr)
  define w where "w = web_accessible_resources m1"
  have m1: "m1 = m\<lparr>schema := None, web_accessible_resources := w\<rparr>"
    using dropSourceMaps_Inr [OF d] by (simp add: w_def)
  from r rewriteForTarget_other [OF tb, of "markBeta (addLocalhost m1 isDev devServers) isDev"]
  have m2: "m2 = (markBeta (addLocalhost m1 isDev devServers) isDev)\<lparr>options_ui := None,
                store_version := None,
                version := store_version (markBeta (addLocalhost m1 isDev devServers) isDev),
                version_name :=
                  map_option (\<lambda>vn. replace vn ''__manifest_version__''
                      (toString (version (markBeta (addLocalhost m1 isDev devServers) isDev))))
                    (version_name (markBeta (addLocalhost m1 isDev devServers) isDev))\<rparr>"
    by simp
  have war: "web_accessible_resources out = web_accessible_resources m1"
    unfolding o m2
    by (simp add: stripForApple_def narrowSettings_def markBeta_def addLocalhost_def
          split: option.splits TargetBase.splits)
  have schema: "schema out = None"
    unfolding o m2 m1
    by (simp add: stripForApple_def narrowSettings_def markBeta_def addLocalhost_def
          split: option.splits TargetBase.splits)
  then have "out\<lparr>schema := None\<rparr> = out"
    by (cases out) simp
  with dropSourceMaps_again [OF d war]
  have d2: "dropSourceMaps (out\<lparr>schema := None\<rparr>) isDev = Inr out"
    by simp
  have tm2: "transformManifest out targetBase isDev devServers =
               Inr ((stripForApple
                      (narrowSettings
                        ((markBeta (addLocalhost out isDev devServers) isDev)\<lparr>options_ui := None,
                           store_version := None,
                           version := store_version (markBeta (addLocalhost out isDev devServers) isDev),
                           version_name :=
                             map_option (\<lambda>vn. replace vn ''__manifest_version__''
                                (toString (version (markBeta (addLocalhost out isDev devServers) isDev))))
                               (version_name (markBeta (addLocalhost out isDev devServers) isDev))\<rparr>)
                        targetBase isDev)
                      targetBase)\<lparr>beta := None\<rparr>)"
    by (simp add: transformManifest_def d2 rewriteForTarget_other [OF tb])
  have fields: "beta out = None" "store_version out = None" "options_ui out = None"
    unfolding o m2
    by (simp_all add: stripForApple_def narrowSettings_def split: option.splits TargetBase.splits)
  have mb: "markBeta (addLocalhost out isDev devServers) isDev = addLocalhost out isDev devServers"
    using fields(1) by (simp add: markBeta_def addLocalhost_def)
  have settings: "browser_specific_settings out =
                    (case targetBase of
                       Chromium \<Rightarrow> None
                     | Firefox \<Rightarrow> browser_specific_settings out
                     | Apple \<Rightarrow>
                         map_option
                           (\<lambda>b. \<lparr>chrome = None, firefox = None, safari = safari b,
                                  gecko = None, gecko_android = None\<rparr>)
                           (browser_specific_settings m2))"
    using tb unfolding o
    by (simp add: stripForApple_def narrowSettings_def split: option.splits TargetBase.splits)
  have apple: "targetBase = Apple \<longrightarrow>
                 incognito out = None
                 \<and> optional_permissions out
                     = map_option (filter (\<lambda>item. item \<noteq> ''cookies'')) (optional_permissions m2)"
    unfolding o
    by (simp add: stripForApple_def narrowSettings_def split: option.splits)
  have "(stripForApple
           (narrowSettings
             ((addLocalhost out isDev devServers)\<lparr>options_ui := None,
                store_version := None,
                version := store_version (addLocalhost out isDev devServers),
                version_name :=
                  map_option (\<lambda>vn. replace vn ''__manifest_version__''
                     (toString (version (addLocalhost out isDev devServers))))
                    (version_name (addLocalhost out isDev devServers))\<rparr>)
             targetBase isDev)
           targetBase)\<lparr>beta := None\<rparr>
        = out\<lparr>version := None,
              version_name :=
                map_option (\<lambda>vn. replace vn ''__manifest_version__'' (toString (version out)))
                  (version_name out),
              host_permissions :=
                (if devServers \<noteq> None \<and> isDev
                 then Some (orElse (host_permissions out) [] @ [''*://localhost/*''])
                 else host_permissions out)\<rparr>"
  proof (cases targetBase)
    case Chromium
    with settings have b: "browser_specific_settings out = None" by simp
    show ?thesis
      unfolding Chromium
      by (rule Manifest.equality)
         (simp_all add: stripForApple_def narrowSettings_def addLocalhost_def b fields)
  next
    case Firefox
    with tb show ?thesis by simp
  next
    case Apple
    with settings have b: "browser_specific_settings out =
                         map_option
                           (\<lambda>b. \<lparr>chrome = None, firefox = None, safari = safari b,
                                  gecko = None, gecko_android = None\<rparr>)
                           (browser_specific_settings m2)" by simp
    from Apple apple have i: "incognito out = None"
      and p: "optional_permissions out
                = map_option (filter (\<lambda>item. item \<noteq> ''cookies'')) (optional_permissions m2)"
      by simp_all
    show ?thesis
      unfolding Apple
      by (rule Manifest.equality; cases "browser_specific_settings m2")
         (simp_all add: stripForApple_def narrowSettings_def addLocalhost_def b i p fields
            map_filter_twice)
  qed
  with tm2 mb show ?thesis by simp
qed


text \<open>Two development passes over \<open>exampleManifest\<close> for the Apple family.\<close>

theorem transformManifest_second_pass_witness:
  "transformManifest exampleManifest Apple True (Some unreachableDevServers)
     = Inr (exampleManifest\<lparr>schema := None, store_version := None, version := Some ''2.0.1'',
              host_permissions := Some [''*://example.com/*'', ''*://localhost/*'']\<rparr>)
   \<and> Apple \<noteq> Firefox
   \<and> transformManifest
         (exampleManifest\<lparr>schema := None, store_version := None, version := Some ''2.0.1'',
              host_permissions := Some [''*://example.com/*'', ''*://localhost/*'']\<rparr>)
         Apple True (Some unreachableDevServers)
     = Inr (exampleManifest\<lparr>schema := None, store_version := None, version := None,
              host_permissions :=
                Some [''*://example.com/*'', ''*://localhost/*'', ''*://localhost/*'']\<rparr>)"
proof -
  have once: "transformManifest exampleManifest Apple True (Some unreachableDevServers)
     = Inr (exampleManifest\<lparr>schema := None, store_version := None, version := Some ''2.0.1'',
              host_permissions := Some [''*://example.com/*'', ''*://localhost/*'']\<rparr>)"
    by (simp add: exampleManifest_def baseManifest_def transformManifest_defs)
  have tb: "Apple \<noteq> Firefox" by simp
  from transformManifest_second_pass [OF once tb] once tb show ?thesis
    by (simp add: exampleManifest_def baseManifest_def orElse_def)
qed

section \<open>Properties of the locale extraction\<close>

lemmas handleI18NNamespace_defs =
  handleI18NNamespace_def orElse_def truthy_def replaceAll_dot_underscore_def


text \<open>
  Claim C4, as stated, fails in its last part: node \<open>a\<close> of the tree has no \<^verbatim>\<open>$types\<close>, so
  at the top level it counts as \<^verbatim>\<open>["main"]\<close> (line 407) and the manifest-only extraction
  skips it. The result is empty, not the key \<^verbatim>\<open>a_b\<close>.
\<close>

theorem handleI18NNamespace_manifest_counterexample:
  "handleI18NNamespace exampleLocale (Some [env_manifest]) None None False None = []
   \<and> map fst (handleI18NNamespace exampleLocale (Some [env_manifest]) None None False None)
       \<noteq> [''a_b'']"
  by (simp add: exampleLocale_def handleI18NNamespace_defs)


text \<open>
  Claim C4, amended. For the locale tree \<^verbatim>\<open>{"a": {"b": "Hello {name}"}}\<close>: extraction
  under profile main gives exactly the key \<^verbatim>\<open>a.b\<close>; when the parser reads the message as
  the literal \<^verbatim>\<open>Hello \<close> followed by the argument \<open>name\<close>, the arguments collected for
  that key are exactly \<open>name\<close>; extraction under the manifest-only profile gives no key,
  the untagged node counting as main only; and once node \<open>a\<close> is tagged
  \<^verbatim>\<open>$types: ["manifest"]\<close>, it gives exactly the key \<^verbatim>\<open>a_b\<close>, the dot rewritten to an
  underscore.
\<close>

theorem handleI18NNamespace_example:
  "handleI18NNamespace exampleLocale (Some [env_main]) None None False None
     = [(''a.b'', \<lparr>entry_context = None, message = Some ''Hello {name}''\<rparr>)]
   \<and> (parseMessage ''Hello {name}'' = [LiteralElement ''Hello '', ArgumentElement ''name'']
        \<longrightarrow> getI18nTypes parseMessage exampleLocale = [(''a.b'', [''name''])])
   \<and> handleI18NNamespace exampleLocale (Some [env_manifest]) None None False None = []
   \<and> handleI18NNamespace taggedLocale (Some [env_manifest]) None None False None
     = [(''a_b'', \<lparr>entry_context = None, message = Some ''Hello {name}''\<rparr>)]"
  by (simp add: exampleLocale_def taggedLocale_def handleI18NNamespace_defs getI18nTypes_def
        messageArgs_def)


theorem handleI18NNamespace_example_witness:
  "exampleParse ''Hello {name}'' = [LiteralElement ''Hello '', ArgumentElement ''name'']
   \<and> getI18nTypes exampleParse exampleLocale = [(''a.b'', [''name''])]
   \<and> map fst (handleI18NNamespace exampleLocale (Some [env_main]) None None False None)
       = [''a.b'']
   \<and> map fst (handleI18NNamespace taggedLocale (Some [env_manifest]) None None False None)
       = [''a_b'']"
proof -
  have p: "exampleParse ''Hello {name}'' = [LiteralElement ''Hello '', ArgumentElement ''name'']"
    by (simp add: exampleParse_def)
  from handleI18NNamespace_example [of exampleParse] p show ?thesis by simp
qed


section \<open>Properties of the rule generator\<close>

lemma mapCounting_ids:
  assumes "\<And>i item. g (f i item) = i"
  shows "map g (fst (mapCounting f idx items)) = map (\<lambda>k. idx + int k) [0..<length items]
         \<and> snd (mapCounting f idx items) = idx + int (length items)"
proof (induction items arbitrary: idx)
  case Nil
  show ?case by simp
next
  case (Cons item items)
  have "map (\<lambda>k. idx + int k) [0..<length (item # items)]
          = idx # map (\<lambda>k. (idx + 1) + int k) [0..<length items]"
    by (simp add: upt_conv_Cons map_Suc_upt [symmetric] del: upt_Suc)
  with Cons [of "idx + 1"] assms show ?case
    by (simp add: split_beta Let_def)
qed

lemma length_mapCounting: "length (fst (mapCounting f idx items)) = length items"
  by (induction items arbitrary: idx) (simp_all add: split_beta Let_def)

lemma mapCounting_map:
  assumes "\<And>i item. h (f i item) = h' item"
  shows "map h (fst (mapCounting f idx items)) = map h' items"
  using assms by (induction items arbitrary: idx) (simp_all add: split_beta Let_def)

lemma consecutive_ids:
  "sorted_wrt (<) (map (\<lambda>k. S + int k) [0..<m]) \<and> distinct (map (\<lambda>k. S + int k) [0..<m])"
  by (simp add: sorted_wrt_map distinct_map inj_on_def)

lemma removeService_ROBLOX_DOMAIN: "removeService ROBLOX_DOMAIN = ''roblox.com''"
  by (simp add: removeService_def ROBLOX_DOMAIN_def)


text \<open>
  Claim C5. For every start id, target, mode, version, Roblox version and security
  policy, the rules of \<open>writeDNRRules\<close> are one per simulated device profile and two
  more; their ids are the start id and its successors in order, with no gap and no
  repetition; the first \<open>n\<close> rules, \<open>n\<close> the number of device profiles, set the
  \<^verbatim>\<open>user-agent\<close> request header and match the platform-type marker of their profile;
  then comes the rule that sets the \<^verbatim>\<open>content-security-policy\<close> response header, then the
  rule that appends to the \<^verbatim>\<open>user-agent\<close> request header.
\<close>

theorem writeDNRRules_ids:
  fixes STATIC_RULES_START_ID :: int and target :: Target and isDev :: bool
    and versionText :: string and robloxVersion :: "string option" and cspPolicy :: string
  defines "rules \<equiv> writeDNRRules STATIC_RULES_START_ID target isDev versionText robloxVersion cspPolicy"
    and "n \<equiv> length (getUserAgentOverrides robloxVersion)"
  shows "length rules = n + 2
    \<and> map rule_id rules = map (\<lambda>k. STATIC_RULES_START_ID + int k) [0..<n + 2]
    \<and> sorted_wrt (<) (map rule_id rules)
    \<and> distinct (map rule_id rules)
    \<and> map (\<lambda>r. urlFilter (condition r)) (take n rules)
        = map (\<lambda>item. ''||roblox.com/*_rosealPlatformType='' @ platformType item)
            (getUserAgentOverrides robloxVersion)
    \<and> map (\<lambda>r. map (\<lambda>h. (header h, operation h)) (orElse (requestHeaders (rule_action r)) []))
          (take n rules)
        = replicate n [(''user-agent'', ''set'')]
    \<and> map (\<lambda>r. map (\<lambda>h. (header h, operation h)) (orElse (responseHeaders (rule_action r)) []))
          (drop n rules)
        = [[(''content-security-policy'', ''set'')], []]
    \<and> map (\<lambda>r. map (\<lambda>h. (header h, operation h)) (orElse (requestHeaders (rule_action r)) []))
          (drop n rules)
        = [[], [(''user-agent'', ''append'')]]"
proof -
  define appendString where
    "appendString = ''RoSealExtension (RoSeal/'' @ targetName target @ ''/'' @ versionText @ ''/''
                           @ (if isDev then ''dev'' else ''prod'') @ '')''"
  define f where
    "f = (\<lambda>(i :: int) (item :: UserAgentOverride).
                 \<lparr>rule_id = i, priority = 1,
                  rule_action =
                    \<lparr>action_type = ''modifyHeaders'',
                     requestHeaders =
                       Some [\<lparr>header = ''user-agent'', operation = ''set'',
                              header_value = userAgent item @ '' '' @ appendString\<rparr>],
                     responseHeaders = None\<rparr>,
                  condition =
                    \<lparr>urlFilter = ''||'' @ removeService ROBLOX_DOMAIN @ ''/*''
                                   @ ROSEAL_OVERRIDE_PLATFORM_TYPE_HEADER_NAME @ ''='' @ platformType item,
                     resourceTypes = [''xmlhttprequest'']\<rparr>\<rparr>)"
  define ovs where "ovs = getUserAgentOverrides robloxVersion"
  define mc where "mc = mapCounting f STATIC_RULES_START_ID ovs"
  obtain cspRule trackingRule where
    rules: "rules = fst mc @ [cspRule, trackingRule]"
    and csp_id: "rule_id cspRule = snd mc"
    and tr_id: "rule_id trackingRule = snd mc + 1"
    and csp_req: "requestHeaders (rule_action cspRule) = None"
    and csp_resp: "map (\<lambda>h. (header h, operation h)) (orElse (responseHeaders (rule_action cspRule)) [])
                    = [(''content-security-policy'', ''set'')]"
    and tr_req: "map (\<lambda>h. (header h, operation h)) (orElse (requestHeaders (rule_action trackingRule)) [])
                    = [(''user-agent'', ''append'')]"
    and tr_resp: "responseHeaders (rule_action trackingRule) = None"
    by (simp add: rules_def writeDNRRules_def Let_def split_beta mc_def f_def ovs_def
          appendString_def orElse_def CONTENT_SECURITY_POLICY_HEADER_NAME_def)
  have len: "length (fst mc) = n"
    by (simp add: mc_def ovs_def n_def length_mapCounting)
  have ids: "map rule_id (fst mc) = map (\<lambda>k. STATIC_RULES_START_ID + int k) [0..<n]"
    and last: "snd mc = STATIC_RULES_START_ID + int n"
    using mapCounting_ids [of rule_id f STATIC_RULES_START_ID ovs]
    by (simp_all add: mc_def f_def ovs_def n_def)
  have 1: "length rules = n + 2"
    by (simp add: rules len)
  have 2: "map rule_id rules = map (\<lambda>k. STATIC_RULES_START_ID + int k) [0..<n + 2]"
    by (simp add: rules ids csp_id tr_id last)
  have 3: "sorted_wrt (<) (map rule_id rules)" and 4: "distinct (map rule_id rules)"
    unfolding 2 using consecutive_ids [of STATIC_RULES_START_ID "n + 2"] by simp_all
  have tk: "take n rules = fst mc" and dr: "drop n rules = [cspRule, trackingRule]"
    by (simp_all add: rules len)
  have 5: "map (\<lambda>r. urlFilter (condition r)) (take n rules)
        = map (\<lambda>item. ''||roblox.com/*_rosealPlatformType='' @ platformType item)
            (getUserAgentOverrides robloxVersion)"
    unfolding tk mc_def ovs_def
    by (rule mapCounting_map)
       (simp add: f_def removeService_ROBLOX_DOMAIN ROSEAL_OVERRIDE_PLATFORM_TYPE_HEADER_NAME_def)
  have "map (\<lambda>r. map (\<lambda>h. (header h, operation h)) (orElse (requestHeaders (rule_action r)) []))
          (take n rules)
        = map (\<lambda>item. [(''user-agent'', ''set'')]) ovs"
    unfolding tk mc_def
    by (rule mapCounting_map) (simp add: f_def orElse_def)
  then have 6: "map (\<lambda>r. map (\<lambda>h. (header h, operation h)) (orElse (requestHeaders (rule_action r)) []))
          (take n rules)
        = replicate n [(''user-agent'', ''set'')]"
    by (simp add: map_replicate_const ovs_def n_def)
  have 7: "map (\<lambda>r. map (\<lambda>h. (header h, operation h)) (orElse (responseHeaders (rule_action r)) []))
          (drop n rules)
        = [[(''content-security-policy'', ''set'')], []]"
    by (simp add: dr csp_resp tr_resp orElse_None)
  have 8: "map (\<lambda>r. map (\<lambda>h. (header h, operation h)) (orElse (requestHeaders (rule_action r)) []))
          (drop n rules)
        = [[], [(''user-agent'', ''append'')]]"
    by (simp add: dr csp_req tr_req orElse_None)
  from 1 2 3 4 5 6 7 8 show ?thesis by (intro conjI)
qed


text \<open>The ids and the URL filters for the start id 1000.\<close>

theorem writeDNRRules_ids_witness:
  "map rule_id (writeDNRRules 1000 chrome_target False ''2.0.0'' None [])
     = [1000, 1001, 1002, 1003, 1004, 1005, 1006]
   \<and> map (\<lambda>r. urlFilter (condition r))
        (take 5 (writeDNRRules 1000 chrome_target False ''2.0.0'' None []))
     = [''||roblox.com/*_rosealPlatformType=Desktop'', ''||roblox.com/*_rosealPlatformType=Console'',
        ''||roblox.com/*_rosealPlatformType=Tablet'', ''||roblox.com/*_rosealPlatformType=Phone'',
        ''||roblox.com/*_rosealPlatformType=VR'']"
proof -
  have n: "length (getUserAgentOverrides None) = 5"
    by (simp add: getUserAgentOverrides_def Let_def)
  have u: "[0..<7] = [0, 1, 2, 3, 4, 5, 6]"
    by (simp add: upt_rec)
  from writeDNRRules_ids [of 1000 chrome_target False "''2.0.0''" None "[]"]
  show ?thesis
    unfolding n by (simp add: u getUserAgentOverrides_def Let_def)
qed


section \<open>Properties of the build orchestration\<close>

lemma set_tasks: "set tasks = UNIV"
proof -
  have "s \<in> set tasks" for s
    by (cases s) (simp_all add: tasks_def)
  then show ?thesis by blast
qed

lemma every_fulfilled:
  "list_all (\<lambda>r. r = fulfilled) (map settles tasks) = (\<forall>s. settles s = fulfilled)"
  by (simp add: list_all_iff set_tasks)

lemma not_fulfilled: "(r \<noteq> fulfilled) = (r = rejected)"
  by (cases r) simp_all

lemma settled_events:
  "filter isSettle (map Launch ts @ map (\<lambda>(s, r). Settle s r) (zip ts (map settles ts)))
     = map (\<lambda>s. Settle s (settles s)) ts"
proof -
  have "filter isSettle (map Launch ts) = []"
    by (induction ts) simp_all
  moreover have "map (\<lambda>(s, r). Settle s r) (zip ts (map settles ts)) = map (\<lambda>s. Settle s (settles s)) ts"
    by (induction ts) simp_all
  moreover have "filter isSettle (map (\<lambda>s. Settle s (settles s)) ts) = map (\<lambda>s. Settle s (settles s)) ts"
    by (induction ts) simp_all
  ultimately show ?thesis by simp
qed


text \<open>
  Claim C6. Once the output directory is prepared and the manifest read, a run of
  \<open>build\<close> has one settled entry for each of the seven tasks, each with the task's own
  outcome, whatever the outcomes of the others; the build is fulfilled only if every
  task was; a single rejected task makes it reject with \<^verbatim>\<open>Build failed with errors\<close>; and
  the conversion to a Safari extension runs exactly when the target base is Apple and
  every task was fulfilled.
\<close>

theorem build_outcome:
  assumes "emptyDir_settles world = fulfilled" and "mkdir_settles world = fulfilled"
    and "getManifest_settles world = fulfilled"
  shows "filter isSettle (fst (build world targetBase))
           = map (\<lambda>s. Settle s (step_settles world s)) tasks
    \<and> length tasks = 7
    \<and> (snd (build world targetBase) = Inr () \<longrightarrow> (\<forall>s. step_settles world s = fulfilled))
    \<and> ((\<exists>s. step_settles world s = rejected)
          \<longrightarrow> snd (build world targetBase) = Inl BuildFailedWithErrors)
    \<and> (ConvertToSafariExtension \<in> set (fst (build world targetBase))
          \<longleftrightarrow> targetBase = Apple \<and> (\<forall>s. step_settles world s = fulfilled))"
proof -
  have rej: "(\<exists>s. step_settles world s = rejected) = (\<not> (\<forall>s. step_settles world s = fulfilled))"
    by (simp flip: not_fulfilled)
  have noconv: "ConvertToSafariExtension \<notin> set (map Launch tasks
                   @ map (\<lambda>(s, r). Settle s r) (zip tasks (map (step_settles world) tasks)))"
    by (simp add: tasks_def)
  have 1: "filter isSettle (fst (build world targetBase))
           = map (\<lambda>s. Settle s (step_settles world s)) tasks"
    using assms settled_events [of tasks "step_settles world"]
    by (simp add: build_def Let_def allSettled_def)
  have 2: "length tasks = 7" by (simp add: tasks_def)
  have 3: "snd (build world targetBase) = Inr () \<longrightarrow> (\<forall>s. step_settles world s = fulfilled)"
    using assms by (simp add: build_def Let_def allSettled_def every_fulfilled)
  have 4: "(\<exists>s. step_settles world s = rejected)
          \<longrightarrow> snd (build world targetBase) = Inl BuildFailedWithErrors"
    unfolding rej using assms by (simp add: build_def Let_def allSettled_def every_fulfilled)
  have 5: "ConvertToSafariExtension \<in> set (fst (build world targetBase))
          \<longleftrightarrow> targetBase = Apple \<and> (\<forall>s. step_settles world s = fulfilled)"
    using assms noconv by (simp add: build_def Let_def allSettled_def every_fulfilled)
  from 1 2 3 4 5 show ?thesis by (intro conjI)
qed



text \<open>
  Apple builds where everything succeeds and where the stylesheet step fails, and a
  Chromium build whose JS step fails while the other six settle as fulfilled.
\<close>

theorem build_outcome_witness:
  "snd (build goodWorld Apple) = Inr ()
   \<and> ConvertToSafariExtension \<in> set (fst (build goodWorld Apple))
   \<and> ConvertToSafariExtension \<notin> set (fst (build goodWorld Chromium))
   \<and> snd (build scssFailsWorld Apple) = Inl BuildFailedWithErrors
   \<and> ConvertToSafariExtension \<notin> set (fst (build scssFailsWorld Apple))
   \<and> filter isSettle (fst (build jsFailsWorld Chromium))
       = [Settle BuildJS rejected, Settle WriteManifest fulfilled, Settle CopyAssets fulfilled,
          Settle WriteDNRRules fulfilled, Settle WriteI18n fulfilled,
          Settle WriteHTMLFiles fulfilled, Settle CompileSCSS fulfilled]"
proof -
  have g: "emptyDir_settles goodWorld = fulfilled" "mkdir_settles goodWorld = fulfilled"
    "getManifest_settles goodWorld = fulfilled"
    by (simp_all add: goodWorld_def)
  have s: "emptyDir_settles scssFailsWorld = fulfilled" "mkdir_settles scssFailsWorld = fulfilled"
    "getManifest_settles scssFailsWorld = fulfilled"
    by (simp_all add: scssFailsWorld_def goodWorld_def)
  have j: "emptyDir_settles jsFailsWorld = fulfilled" "mkdir_settles jsFailsWorld = fulfilled"
    "getManifest_settles jsFailsWorld = fulfilled"
    by (simp_all add: jsFailsWorld_def goodWorld_def)
  have bad: "\<exists>st. step_settles scssFailsWorld st = rejected"
    by (rule exI [of _ CompileSCSS]) (simp add: scssFailsWorld_def)
  have all: "\<forall>st. step_settles goodWorld st = fulfilled"
    by (simp add: goodWorld_def)
  have notall: "\<not> (\<forall>st. step_settles scssFailsWorld st = fulfilled)"
    using bad by (simp flip: not_fulfilled)
  note good_apple = build_outcome [OF g, of Apple]
  note good_chromium = build_outcome [OF g, of Chromium]
  note scss_apple = build_outcome [OF s, of Apple]
  note js_chromium = build_outcome [OF j, of Chromium]
  have 1: "snd (build goodWorld Apple) = Inr ()"
    by (simp add: build_def goodWorld_def Let_def allSettled_def tasks_def)
  have 2: "ConvertToSafariExtension \<in> set (fst (build goodWorld Apple))"
    using good_apple [THEN conjunct2, THEN conjunct2, THEN conjunct2, THEN conjunct2] all
    by simp
  have 3: "ConvertToSafariExtension \<notin> set (fst (build goodWorld Chromium))"
    using good_chromium [THEN conjunct2, THEN conjunct2, THEN conjunct2, THEN conjunct2]
    by simp
  have 4: "snd (build scssFailsWorld Apple) = Inl BuildFailedWithErrors"
    using scss_apple [THEN conjunct2, THEN conjunct2, THEN conjunct2, THEN conjunct1] bad
    by (rule mp)
  have 5: "ConvertToSafariExtension \<notin> set (fst (build scssFailsWorld Apple))"
    using scss_apple [THEN conjunct2, THEN conjunct2, THEN conjunct2, THEN conjunct2] notall
    by simp
  have 6: "filter isSettle (fst (build jsFailsWorld Chromium))
       = [Settle BuildJS rejected, Settle WriteManifest fulfilled, Settle CopyAssets fulfilled,
          Settle WriteDNRRules fulfilled, Settle WriteI18n fulfilled,
          Settle WriteHTMLFiles fulfilled, Settle CompileSCSS fulfilled]"
    unfolding js_chromium [THEN conjunct1]
    by (simp add: tasks_def jsFailsWorld_def)
  from 1 2 3 4 5 6 show ?thesis by (intro conjI)
qed



section \<open>Properties of the development server\<close>

text \<open>
  Claim C7, as stated, fails: when the rebuild step is rejected, no notification is
  sent; and a change under \<^verbatim>\<open>src/img\<close> sends none even when the step is fulfilled.
\<close>

theorem handleChange_rejected_counterexample:
  "fst (onChange watch_ts rejected [1 :: nat, 2]) = []
   \<and> fst (onChange watch_img fulfilled [1 :: nat, 2]) = []"
  by (simp add: onChange_def handleChange_def truthy_def)


text \<open>
  Claim C7, amended. After the rebuild step of a watched change is fulfilled, and the
  watcher passes a type, the notification with that type is sent to every connection
  of the open-connection set, in the set's order; the type is \<^verbatim>\<open>CSS\<close> or \<^verbatim>\<open>Reload\<close> for
  every watcher but the one on \<^verbatim>\<open>src/img\<close>, which passes none and sends nothing. When
  the rebuild step is rejected, nothing is sent.
\<close>

theorem handleChange_notifies:
  "fst (onChange watched rejected connections) = []
   \<and> fst (onChange watched fulfilled connections)
       = (case watcherType watched of
            None \<Rightarrow> []
          | Some type \<Rightarrow> map (\<lambda>connection. (connection, \<lparr>notification_type = type\<rparr>)) connections)
   \<and> (watched \<noteq> watch_img \<longrightarrow> watcherType watched \<in> {Some ''CSS'', Some ''Reload''})
   \<and> watcherType watch_img = None"
  by (cases watched) (simp_all add: onChange_def handleChange_def truthy_def orElse_def)


theorem handleChange_notifies_witness:
  "watch_scss \<noteq> watch_img
   \<and> fst (onChange watch_scss fulfilled [1 :: nat, 2])
       = [(1, \<lparr>notification_type = ''CSS''\<rparr>), (2, \<lparr>notification_type = ''CSS''\<rparr>)]
   \<and> fst (onChange watch_html fulfilled [1 :: nat, 2])
       = [(1, \<lparr>notification_type = ''Reload''\<rparr>), (2, \<lparr>notification_type = ''Reload''\<rparr>)]
   \<and> fst (onChange watch_html rejected [1 :: nat, 2]) = []"
  using handleChange_notifies [of watch_scss "[1 :: nat, 2]"]
    handleChange_notifies [of watch_html "[1 :: nat, 2]"]
  by simp

end
